theory Spec2Isabelle
  imports Main "HOL-Library.Word"
begin

unbundle bit_operations_syntax

section \<open>The TLS session layer of crypto/tlssession.c\<close>

text \<open>
  The development embeds the GNUTLS build of \<^verbatim>\<open>crypto/tlssession.c\<close>. The session
  structure is a record, every function of the file is a HOL function that takes the
  session and returns the updated one together with what the C function returns and
  what it stores through \<^verbatim>\<open>errp\<close>. The TLS engine, the transport callbacks, the
  authorization service and the clock are outside the file: their answers are inputs
  of the model, so every theorem holds for whatever they answer.
\<close>

subsection \<open>Return codes\<close>

type_synonym Error = string

text \<open>
  The functions of the file compare their results with constants of two headers that
  are not among the sources. Each constant is introduced here with the role the spec
  gives it and the value the header gives it.
\<close>

text \<open>
  Modelled from the spec: the header \<^verbatim>\<open>crypto/tlssession.h\<close> is not among the sources. The spec
  (sections 4.2 and 6) has a distinguished "would block" signal next to byte counts and
  failure; the header defines it as \<open>-2\<close>.
\<close>
definition QCRYPTO_TLS_SESSION_ERR_BLOCK :: int where
  "QCRYPTO_TLS_SESSION_ERR_BLOCK = -2"

text \<open>
  Modelled from the spec: the header \<^verbatim>\<open>crypto/tlssession.h\<close> is not among the sources. COMPLETE,
  the first result of the handshake step (section 6); the enumeration of the header
  starts at zero.
\<close>
definition QCRYPTO_TLS_HANDSHAKE_COMPLETE :: int where
  "QCRYPTO_TLS_HANDSHAKE_COMPLETE = 0"

text \<open>
  Modelled from the spec: the header \<^verbatim>\<open>crypto/tlssession.h\<close> is not among the sources. WANT_SEND,
  the second result of the handshake step (section 6).
\<close>
definition QCRYPTO_TLS_HANDSHAKE_SENDING :: int where
  "QCRYPTO_TLS_HANDSHAKE_SENDING = 1"

text \<open>
  Modelled from the spec: the header \<^verbatim>\<open>crypto/tlssession.h\<close> is not among the sources. WANT_RECV,
  the third result of the handshake step (section 6).
\<close>
definition QCRYPTO_TLS_HANDSHAKE_RECVING :: int where
  "QCRYPTO_TLS_HANDSHAKE_RECVING = 2"

text \<open>
  Modelled from the spec: the header \<^verbatim>\<open>crypto/tlssession.h\<close> is not among the sources. COMPLETE,
  the first result of the bye step (section 6); the enumeration of the header starts at
  zero.
\<close>
definition QCRYPTO_TLS_BYE_COMPLETE :: int where
  "QCRYPTO_TLS_BYE_COMPLETE = 0"

text \<open>
  Modelled from the spec: the header \<^verbatim>\<open>crypto/tlssession.h\<close> is not among the sources. WANT_SEND,
  the second result of the bye step (section 6).
\<close>
definition QCRYPTO_TLS_BYE_SENDING :: int where
  "QCRYPTO_TLS_BYE_SENDING = 1"

text \<open>
  Modelled from the spec: the header \<^verbatim>\<open>crypto/tlssession.h\<close> is not among the sources. WANT_RECV,
  the third result of the bye step (section 6).
\<close>
definition QCRYPTO_TLS_BYE_RECVING :: int where
  "QCRYPTO_TLS_BYE_RECVING = 2"

text \<open>
  Modelled from the spec: the header \<^verbatim>\<open>gnutls/gnutls.h\<close> is not among the sources. The engine's
  retry-me-later signal (sections 4.2 and 4.3).
\<close>
definition GNUTLS_E_AGAIN :: int where
  "GNUTLS_E_AGAIN = -28"

text \<open>
  Modelled from the spec: the header \<^verbatim>\<open>gnutls/gnutls.h\<close> is not among the sources. The engine's
  "interrupted" signal (section 4.3).
\<close>
definition GNUTLS_E_INTERRUPTED :: int where
  "GNUTLS_E_INTERRUPTED = -52"

text \<open>
  Modelled from the spec: the header \<^verbatim>\<open>gnutls/gnutls.h\<close> is not among the sources. The engine's
  report of a premature termination of the stream (section 8).
\<close>
definition GNUTLS_E_PREMATURE_TERMINATION :: int where
  "GNUTLS_E_PREMATURE_TERMINATION = -110"

text \<open>
  Modelled from the spec: the header \<^verbatim>\<open>gnutls/gnutls.h\<close> is not among the sources. The engine's
  "buffer too small" signal (section 4.4, step 4).
\<close>
definition GNUTLS_E_SHORT_MEMORY_BUFFER :: int where
  "GNUTLS_E_SHORT_MEMORY_BUFFER = -51"

text \<open>
  Modelled from the spec: the header \<^verbatim>\<open>gnutls/gnutls.h\<close> is not among the sources. The status
  bit "generic invalid", reported as an untrusted certificate (section 4.4, step 1); the
  status is an \<^verbatim>\<open>unsigned int\<close>.
\<close>
definition GNUTLS_CERT_INVALID :: "32 word" where
  "GNUTLS_CERT_INVALID = 2"

text \<open>
  Modelled from the spec: the header \<^verbatim>\<open>gnutls/gnutls.h\<close> is not among the sources. The status
  bit "revoked" (section 4.4, step 1).
\<close>
definition GNUTLS_CERT_REVOKED :: "32 word" where
  "GNUTLS_CERT_REVOKED = 32"

text \<open>
  Modelled from the spec: the header \<^verbatim>\<open>gnutls/gnutls.h\<close> is not among the sources. The status
  bit "unknown issuer" (section 4.4, step 1).
\<close>
definition GNUTLS_CERT_SIGNER_NOT_FOUND :: "32 word" where
  "GNUTLS_CERT_SIGNER_NOT_FOUND = 64"

text \<open>
  Modelled from the spec: the header \<^verbatim>\<open>gnutls/gnutls.h\<close> is not among the sources. The status
  bit "insecure algorithm" (section 4.4, step 1).
\<close>
definition GNUTLS_CERT_INSECURE_ALGORITHM :: "32 word" where
  "GNUTLS_CERT_INSECURE_ALGORITHM = 256"

text \<open>The two values of \<^verbatim>\<open>errno\<close> that the transport bridge stores.\<close>
datatype errno = EIO | EAGAIN

text \<open>
  The negotiated protocol version and cipher, as far as the handshake step looks at
  them: it compares the version with TLS 1.3 and the cipher with CHACHA20-POLY1305.
\<close>
datatype gnutls_protocol_t = GNUTLS_TLS1_3 | GNUTLS_VERSION_OTHER nat
datatype gnutls_cipher_algorithm_t = GNUTLS_CIPHER_CHACHA20_POLY1305 | GNUTLS_CIPHER_OTHER nat

subsection \<open>Credentials\<close>

datatype QCryptoTLSCredsEndpoint =
  QCRYPTO_TLS_CREDS_ENDPOINT_CLIENT | QCRYPTO_TLS_CREDS_ENDPOINT_SERVER

text \<open>
  The dynamic type of the credentials object, which \<^verbatim>\<open>object_dynamic_cast\<close>
  inspects; \<open>TYPE_OTHER\<close> carries the type name of any other object.
\<close>
datatype creds_type =
  TYPE_QCRYPTO_TLS_CREDS_ANON | TYPE_QCRYPTO_TLS_CREDS_PSK | TYPE_QCRYPTO_TLS_CREDS_X509
  | TYPE_OTHER string

record QCryptoTLSCreds =
  endpoint :: QCryptoTLSCredsEndpoint
  priority :: "string option"
  verifyPeer :: bool
  typename :: creds_type

subsection \<open>The session and its observation log\<close>

datatype direction = Wr | Rd

datatype engine_fn =
  gnutls_init | gnutls_deinit | gnutls_priority_set_direct | gnutls_credentials_set
  | gnutls_certificate_server_set_request | gnutls_transport_set
  | gnutls_handshake | gnutls_record_send | gnutls_record_recv | gnutls_bye
  | gnutls_record_get_direction | gnutls_cipher_get | gnutls_protocol_get_version
  | gnutls_record_check_pending | gnutls_cipher_get_key_size

text \<open>
  What a run of the session does to its surroundings, in order: operations on the
  session's mutex, the release of an error slot, an invocation of a transport
  callback, the entry into and the return from a function of the engine, and the
  warning of the handshake step.
\<close>
datatype event =
  MutexLock | MutexUnlock | ErrorFree direction | Callback direction
  | EngineEnter engine_fn | EngineLeave engine_fn | WarnReport

text \<open>
  \<^verbatim>\<open>struct QCryptoTLSSession\<close>. A pointer that may be \<^verbatim>\<open>NULL\<close> is an option. A write
  callback receives the buffer and the opaque context and returns its result, the
  error it stored through its \<^verbatim>\<open>errp\<close> and the context as it left it; a read
  callback receives the length asked for and returns in addition the bytes it put
  into the buffer. The field \<open>trace\<close> is the log of the events so far.
\<close>
record 'o QCryptoTLSSession =
  creds :: QCryptoTLSCreds
  handle :: nat
  hostname :: "string option"
  authzid :: "string option"
  handshakeComplete :: bool
  writeFunc :: "(string \<Rightarrow> 'o option \<Rightarrow> (int \<times> Error option) \<times> 'o option) option"
  readFunc :: "(nat \<Rightarrow> 'o option \<Rightarrow> (int \<times> string \<times> Error option) \<times> 'o option) option"
  opaque :: "'o option"
  peername :: "string option"
  rerr :: "Error option"
  werr :: "Error option"
  requireThreadSafety :: bool
  lockEnabled :: bool
  trace :: "event list"

text \<open>What the build and the engine's message table fix for all sessions.\<close>
record build_config =
  CONFIG_TLS_PRIORITY :: string
  CONFIG_GNUTLS_BUG1717_WORKAROUND :: bool
  gnutls_strerror :: "int \<Rightarrow> string"

definition emit :: "event \<Rightarrow> 'o QCryptoTLSSession \<Rightarrow> 'o QCryptoTLSSession" where
  "emit e s = s\<lparr>trace := trace s @ [e]\<rparr>"

definition qemu_mutex_lock :: "'o QCryptoTLSSession \<Rightarrow> 'o QCryptoTLSSession" where
  "qemu_mutex_lock s = emit MutexLock s"

definition qemu_mutex_unlock :: "'o QCryptoTLSSession \<Rightarrow> 'o QCryptoTLSSession" where
  "qemu_mutex_unlock s = emit MutexUnlock s"

text \<open>A call of an engine function that answers without calling back.\<close>
definition engine_query :: "engine_fn \<Rightarrow> 'o QCryptoTLSSession \<Rightarrow> 'o QCryptoTLSSession" where
  "engine_query f s = emit (EngineLeave f) (emit (EngineEnter f) s)"

subsection \<open>The transport bridge\<close>

text \<open>
  \<^verbatim>\<open>qcrypto_tls_session_push\<close>: the result is the value returned to the engine and the
  value stored into \<^verbatim>\<open>errno\<close>, if one is stored.
\<close>
definition qcrypto_tls_session_push ::
  "'o QCryptoTLSSession \<Rightarrow> string \<Rightarrow> (int \<times> errno option) \<times> 'o QCryptoTLSSession" where
  "qcrypto_tls_session_push session buf =
     (case writeFunc session of
        None \<Rightarrow> ((-1, Some EIO), session)
      | Some f \<Rightarrow>
          (let s1 = (if lockEnabled session then qemu_mutex_unlock session else session);
               s2 = (emit (ErrorFree Wr) s1)\<lparr>werr := None\<rparr>;
               ((ret, err), ctx) = f buf (opaque s2);
               s3 = (emit (Callback Wr) s2)\<lparr>werr := err, opaque := ctx\<rparr>;
               s4 = (if lockEnabled s3 then qemu_mutex_lock s3 else s3)
           in if ret = QCRYPTO_TLS_SESSION_ERR_BLOCK then ((-1, Some EAGAIN), s4)
              else if ret < 0 then ((-1, Some EIO), s4)
              else ((ret, None), s4)))"

text \<open>
  \<^verbatim>\<open>qcrypto_tls_session_pull\<close>: the result holds in addition the bytes that the read
  callback put into the engine's buffer.
\<close>
definition qcrypto_tls_session_pull ::
  "'o QCryptoTLSSession \<Rightarrow> nat \<Rightarrow> ((int \<times> errno option) \<times> string) \<times> 'o QCryptoTLSSession" where
  "qcrypto_tls_session_pull session len =
     (case readFunc session of
        None \<Rightarrow> (((-1, Some EIO), []), session)
      | Some f \<Rightarrow>
          (let s1 = (emit (ErrorFree Rd) session)\<lparr>rerr := None\<rparr>;
               s2 = (if lockEnabled s1 then qemu_mutex_unlock s1 else s1);
               ((ret, data, err), ctx) = f len (opaque s2);
               s3 = (emit (Callback Rd) s2)\<lparr>rerr := err, opaque := ctx\<rparr>;
               s4 = (if lockEnabled s3 then qemu_mutex_lock s3 else s3)
           in if ret = QCRYPTO_TLS_SESSION_ERR_BLOCK then (((-1, Some EAGAIN), data), s4)
              else if ret < 0 then (((-1, Some EIO), data), s4)
              else (((ret, None), data), s4)))"

subsection \<open>The engine as a caller of the bridge\<close>

text \<open>
  One call of an engine function that does I/O is a finite interaction: the engine
  returns a value, or it pushes bytes or pulls up to so many bytes through the bridge
  and goes on according to what the bridge returned.
\<close>
datatype 'r engine_run =
  Done 'r
  | DoPush string "int \<times> errno option \<Rightarrow> 'r engine_run"
  | DoPull nat "(int \<times> errno option) \<times> string \<Rightarrow> 'r engine_run"

primrec run_engine :: "'r engine_run \<Rightarrow> 'o QCryptoTLSSession \<Rightarrow> 'r \<times> 'o QCryptoTLSSession" where
  "run_engine (Done r) s = (r, s)"
| "run_engine (DoPush buf k) s =
     (case qcrypto_tls_session_push s buf of (res, s') \<Rightarrow> run_engine (k res) s')"
| "run_engine (DoPull len k) s =
     (case qcrypto_tls_session_pull s len of (res, s') \<Rightarrow> run_engine (k res) s')"

text \<open>The call of an engine function \<open>f\<close> that behaves as \<open>run\<close>.\<close>
definition engine_call ::
  "engine_fn \<Rightarrow> 'r engine_run \<Rightarrow> 'o QCryptoTLSSession \<Rightarrow> 'r \<times> 'o QCryptoTLSSession" where
  "engine_call f run s =
     (case run_engine run (emit (EngineEnter f) s) of (r, s') \<Rightarrow> (r, emit (EngineLeave f) s'))"

subsection \<open>Write and read\<close>

text \<open>
  \<^verbatim>\<open>qcrypto_tls_session_write\<close>: the result is the returned value, the error stored
  through \<^verbatim>\<open>errp\<close> and the session. \<open>send\<close> is what \<^verbatim>\<open>gnutls_record_send\<close> does
  with the buffer in this call.
\<close>
definition qcrypto_tls_session_write ::
  "build_config \<Rightarrow> 'o QCryptoTLSSession \<Rightarrow> string \<Rightarrow> (string \<Rightarrow> int engine_run)
     \<Rightarrow> int \<times> Error option \<times> 'o QCryptoTLSSession" where
  "qcrypto_tls_session_write cfg session buf send =
     (let s1 = (if lockEnabled session then qemu_mutex_lock session else session);
          (ret, s2) = engine_call gnutls_record_send (send buf) s1;
          s3 = (if lockEnabled s2 then qemu_mutex_unlock s2 else s2)
      in if ret < 0 then
           (if ret = GNUTLS_E_AGAIN then (QCRYPTO_TLS_SESSION_ERR_BLOCK, None, s3)
            else (case werr s3 of
                    Some e \<Rightarrow> (-1, Some e, s3\<lparr>werr := None\<rparr>)
                  | None \<Rightarrow>
                      (-1, Some (''Cannot write to TLS channel: '' @ gnutls_strerror cfg ret), s3)))
         else (ret, None, s3))"

text \<open>
  \<^verbatim>\<open>qcrypto_tls_session_read\<close>: \<open>recv\<close> is what \<^verbatim>\<open>gnutls_record_recv\<close> does when asked
  for \<open>len\<close> bytes; it returns its result and the bytes it put into the caller's
  buffer, which are the second component of the result here.
\<close>
definition qcrypto_tls_session_read ::
  "build_config \<Rightarrow> 'o QCryptoTLSSession \<Rightarrow> nat \<Rightarrow> bool \<Rightarrow> (nat \<Rightarrow> (int \<times> string) engine_run)
     \<Rightarrow> int \<times> string \<times> Error option \<times> 'o QCryptoTLSSession" where
  "qcrypto_tls_session_read cfg session len gracefulTermination recv =
     (let s1 = (if lockEnabled session then qemu_mutex_lock session else session);
          ((ret, buf), s2) = engine_call gnutls_record_recv (recv len) s1;
          s3 = (if lockEnabled s2 then qemu_mutex_unlock s2 else s2)
      in if ret < 0 then
           (if ret = GNUTLS_E_AGAIN then (QCRYPTO_TLS_SESSION_ERR_BLOCK, buf, None, s3)
            else if ret = GNUTLS_E_PREMATURE_TERMINATION \<and> gracefulTermination
            then (0, buf, None, s3)
            else (case rerr s3 of
                    Some e \<Rightarrow> (-1, buf, Some e, s3\<lparr>rerr := None\<rparr>)
                  | None \<Rightarrow>
                      (-1, buf,
                       Some (''Cannot read from TLS channel: '' @ gnutls_strerror cfg ret), s3)))
         else (ret, buf, None, s3))"

definition qcrypto_tls_session_check_pending ::
  "'o QCryptoTLSSession \<Rightarrow> nat \<Rightarrow> nat \<times> 'o QCryptoTLSSession" where
  "qcrypto_tls_session_check_pending session pending =
     (pending, engine_query gnutls_record_check_pending session)"

subsection \<open>Handshake and bye\<close>

text \<open>
  The failure report shared by the handshake and the bye step: the message, with the
  read error before the write error when one is pending, and both slots released.
\<close>
definition report_failure ::
  "build_config \<Rightarrow> string \<Rightarrow> int \<Rightarrow> 'o QCryptoTLSSession
     \<Rightarrow> int \<times> Error option \<times> 'o QCryptoTLSSession" where
  "report_failure cfg what ret s =
     (let msg = (case (rerr s, werr s) of
                   (Some e, _) \<Rightarrow> what @ gnutls_strerror cfg ret @ '': '' @ e
                 | (None, Some e) \<Rightarrow> what @ gnutls_strerror cfg ret @ '': '' @ e
                 | (None, None) \<Rightarrow> what @ gnutls_strerror cfg ret);
          s1 = emit (ErrorFree Wr) (emit (ErrorFree Rd) s)
      in (-1, Some msg, s1\<lparr>rerr := None, werr := None\<rparr>))"

text \<open>
  \<^verbatim>\<open>qcrypto_tls_session_handshake\<close>. \<open>run\<close> is what \<^verbatim>\<open>gnutls_handshake\<close> does in this
  call; \<open>version\<close>, \<open>cipher\<close> and \<open>dir\<close> are the engine's answers to the queries
  for the negotiated version, the cipher and the record direction.
\<close>
definition qcrypto_tls_session_handshake ::
  "build_config \<Rightarrow> 'o QCryptoTLSSession \<Rightarrow> int engine_run
     \<Rightarrow> gnutls_protocol_t \<Rightarrow> gnutls_cipher_algorithm_t \<Rightarrow> int
     \<Rightarrow> int \<times> Error option \<times> 'o QCryptoTLSSession" where
  "qcrypto_tls_session_handshake cfg session run version cipher dir =
     (let (ret, s1) = engine_call gnutls_handshake run session
      in if ret = 0 then
           (let s2 =
                  (if CONFIG_GNUTLS_BUG1717_WORKAROUND cfg then
                     (let q1 = engine_query gnutls_protocol_get_version
                                 (engine_query gnutls_cipher_get s1);
                          q2 = (if requireThreadSafety q1
                                then engine_query gnutls_protocol_get_version q1 else q1)
                      in if requireThreadSafety q2 \<and> version = GNUTLS_TLS1_3
                            \<and> cipher \<noteq> GNUTLS_CIPHER_CHACHA20_POLY1305
                         then (emit WarnReport q2)\<lparr>lockEnabled := True\<rparr>
                         else q2)
                   else s1)
            in (QCRYPTO_TLS_HANDSHAKE_COMPLETE, None, s2\<lparr>handshakeComplete := True\<rparr>))
         else if ret = GNUTLS_E_INTERRUPTED \<or> ret = GNUTLS_E_AGAIN then
           (let s2 = engine_query gnutls_record_get_direction s1
            in (if dir \<noteq> 0 then QCRYPTO_TLS_HANDSHAKE_SENDING
                else QCRYPTO_TLS_HANDSHAKE_RECVING, None, s2))
         else report_failure cfg ''TLS handshake failed: '' ret s1)"

text \<open>\<^verbatim>\<open>qcrypto_tls_session_bye\<close>; \<open>run\<close> is what \<^verbatim>\<open>gnutls_bye\<close> does.\<close>
definition qcrypto_tls_session_bye ::
  "build_config \<Rightarrow> 'o QCryptoTLSSession \<Rightarrow> int engine_run \<Rightarrow> int
     \<Rightarrow> int \<times> Error option \<times> 'o QCryptoTLSSession" where
  "qcrypto_tls_session_bye cfg session run dir =
     (if \<not> handshakeComplete session then (0, None, session)
      else
        (let s1 = (if lockEnabled session then qemu_mutex_lock session else session);
             (ret, s2) = engine_call gnutls_bye run s1;
             s3 = (if lockEnabled s2 then qemu_mutex_unlock s2 else s2)
         in if ret = 0 then (QCRYPTO_TLS_BYE_COMPLETE, None, s3)
            else if ret = GNUTLS_E_INTERRUPTED \<or> ret = GNUTLS_E_AGAIN then
              (let s4 = engine_query gnutls_record_get_direction s3
               in (if dir \<noteq> 0 then QCRYPTO_TLS_BYE_SENDING
                   else QCRYPTO_TLS_BYE_RECVING, None, s4))
            else report_failure cfg ''TLS termination failed: '' ret s3))"

subsection \<open>Construction and the small operations\<close>

text \<open>
  \<^verbatim>\<open>qcrypto_tls_session_free\<close> releases the two error slots and then hands the engine
  handle back; seen from outside these are three more events after the events \<open>evs\<close>
  so far.
\<close>
definition qcrypto_tls_session_free :: "event list \<Rightarrow> event list" where
  "qcrypto_tls_session_free evs =
     evs @ [ErrorFree Rd, ErrorFree Wr, EngineEnter gnutls_deinit, EngineLeave gnutls_deinit]"

text \<open>
  The engine's answers during construction: the result of \<^verbatim>\<open>gnutls_init\<close> and the
  handle it allocates, the result of \<^verbatim>\<open>gnutls_priority_set_direct\<close> for a priority
  string, and the result of \<^verbatim>\<open>gnutls_credentials_set\<close>.
\<close>
record new_env =
  init_ret :: int
  init_handle :: nat
  priority_set_ret :: "string \<Rightarrow> int"
  credentials_set_ret :: int

definition TLS_PRIORITY_ADDITIONAL_ANON :: string where
  "TLS_PRIORITY_ADDITIONAL_ANON = ''+ANON-DH''"

definition TLS_PRIORITY_ADDITIONAL_PSK :: string where
  "TLS_PRIORITY_ADDITIONAL_PSK = ''+ECDHE-PSK:+DHE-PSK:+PSK''"

definition engine_events :: "engine_fn list \<Rightarrow> event list" where
  "engine_events fs = concat (map (\<lambda>f. [EngineEnter f, EngineLeave f]) fs)"

text \<open>
  The part of \<^verbatim>\<open>qcrypto_tls_session_new\<close> shared by the anonymous and the pre-shared-key
  branch: the priority string with the suffix \<open>extra\<close>, then the key material.
\<close>
definition set_priority_and_credentials ::
  "build_config \<Rightarrow> new_env \<Rightarrow> QCryptoTLSCreds \<Rightarrow> string \<Rightarrow> event list
     \<Rightarrow> event list \<times> (Error + unit)" where
  "set_priority_and_credentials cfg env c extra evs =
     (let prio = (case priority c of
                    Some p \<Rightarrow> p @ '':'' @ extra
                  | None \<Rightarrow> CONFIG_TLS_PRIORITY cfg @ '':'' @ extra);
          ret = priority_set_ret env prio;
          evs1 = evs @ engine_events [gnutls_priority_set_direct]
      in if ret < 0 then
           (evs1, Inl (''Unable to set TLS session priority '' @ prio @ '': ''
                        @ gnutls_strerror cfg ret))
         else
           (let ret2 = credentials_set_ret env;
                evs2 = evs1 @ engine_events [gnutls_credentials_set]
            in if ret2 < 0 then
                 (evs2, Inl (''Cannot set session credentials: '' @ gnutls_strerror cfg ret2))
               else (evs2, Inr ())))"

text \<open>
  \<^verbatim>\<open>qcrypto_tls_session_new\<close>: the result is the events of the construction and either
  the error stored through \<^verbatim>\<open>errp\<close> (the function returns \<^verbatim>\<open>NULL\<close>, after it has
  freed the session) or the new session.
\<close>
definition qcrypto_tls_session_new ::
  "build_config \<Rightarrow> new_env \<Rightarrow> QCryptoTLSCreds \<Rightarrow> string option \<Rightarrow> string option
     \<Rightarrow> QCryptoTLSCredsEndpoint \<Rightarrow> event list \<times> (Error + 'o QCryptoTLSSession)" where
  "qcrypto_tls_session_new cfg env c host authz ep =
     (if endpoint c \<noteq> ep then
        (qcrypto_tls_session_free [], Inl ''Credentials endpoint doesn't match session'')
      else
        (let ret = init_ret env;
             evs = engine_events [gnutls_init]
         in if ret < 0 then
              (qcrypto_tls_session_free evs,
               Inl (''Cannot initialize TLS session: '' @ gnutls_strerror cfg ret))
            else
              (let (evs1, res) =
                     (case typename c of
                        TYPE_QCRYPTO_TLS_CREDS_ANON \<Rightarrow>
                          set_priority_and_credentials cfg env c TLS_PRIORITY_ADDITIONAL_ANON evs
                      | TYPE_QCRYPTO_TLS_CREDS_PSK \<Rightarrow>
                          set_priority_and_credentials cfg env c TLS_PRIORITY_ADDITIONAL_PSK evs
                      | TYPE_QCRYPTO_TLS_CREDS_X509 \<Rightarrow>
                          (let prio = (case priority c of Some p \<Rightarrow> p
                                       | None \<Rightarrow> CONFIG_TLS_PRIORITY cfg);
                               r1 = priority_set_ret env prio;
                               e1 = evs @ engine_events [gnutls_priority_set_direct]
                           in if r1 < 0 then
                                (e1, Inl (''Cannot set default TLS session priority '' @ prio
                                           @ '': '' @ gnutls_strerror cfg r1))
                              else
                                (let r2 = credentials_set_ret env;
                                     e2 = e1 @ engine_events [gnutls_credentials_set]
                                 in if r2 < 0 then
                                      (e2, Inl (''Cannot set session credentials: ''
                                                 @ gnutls_strerror cfg r2))
                                    else if endpoint c = QCRYPTO_TLS_CREDS_ENDPOINT_SERVER then
                                      (e2 @ engine_events [gnutls_certificate_server_set_request],
                                       Inr ())
                                    else (e2, Inr ())))
                      | TYPE_OTHER name \<Rightarrow>
                          (evs, Inl (''Unsupported TLS credentials type '' @ name)))
               in case res of
                    Inl e \<Rightarrow> (qcrypto_tls_session_free evs1, Inl e)
                  | Inr _ \<Rightarrow>
                      (let evs2 = evs1 @ engine_events
                                    [gnutls_transport_set, gnutls_transport_set, gnutls_transport_set]
                       in (evs2,
                           Inr \<lparr>creds = c, handle = init_handle env, hostname = host,
                                authzid = authz, handshakeComplete = False,
                                writeFunc = None, readFunc = None, opaque = None,
                                peername = None, rerr = None, werr = None,
                                requireThreadSafety = False, lockEnabled = False,
                                trace = evs2\<rparr>)))))"

definition qcrypto_tls_session_require_thread_safety ::
  "'o QCryptoTLSSession \<Rightarrow> 'o QCryptoTLSSession" where
  "qcrypto_tls_session_require_thread_safety sess = sess\<lparr>requireThreadSafety := True\<rparr>"

definition qcrypto_tls_session_set_callbacks ::
  "'o QCryptoTLSSession
     \<Rightarrow> (string \<Rightarrow> 'o option \<Rightarrow> (int \<times> Error option) \<times> 'o option) option
     \<Rightarrow> (nat \<Rightarrow> 'o option \<Rightarrow> (int \<times> string \<times> Error option) \<times> 'o option) option
     \<Rightarrow> 'o option \<Rightarrow> 'o QCryptoTLSSession" where
  "qcrypto_tls_session_set_callbacks session wfun rfun ctx =
     session\<lparr>writeFunc := wfun, readFunc := rfun, opaque := ctx\<rparr>"

text \<open>
  \<^verbatim>\<open>qcrypto_tls_session_get_key_size\<close>; \<open>key_size\<close> is the \<^verbatim>\<open>size_t\<close> that the engine
  reports for the negotiated cipher. The function stores it in an \<^verbatim>\<open>int\<close>, which keeps
  the low 32 bits as a signed value.
\<close>
definition qcrypto_tls_session_get_key_size ::
  "'o QCryptoTLSSession \<Rightarrow> nat \<Rightarrow> int \<times> Error option \<times> 'o QCryptoTLSSession" where
  "qcrypto_tls_session_get_key_size session key_size =
     (let s1 = engine_query gnutls_cipher_get_key_size (engine_query gnutls_cipher_get session);
          ssf = sint (word_of_nat key_size :: 32 word)
      in if ssf = 0 then (-1, Some ''Cannot get TLS cipher key size'', s1)
         else (ssf, None, s1))"

definition qcrypto_tls_session_get_peer_name :: "'o QCryptoTLSSession \<Rightarrow> string option" where
  "qcrypto_tls_session_get_peer_name session =
     (case peername session of Some n \<Rightarrow> Some n | None \<Rightarrow> None)"

subsection \<open>The peer verifier\<close>

text \<open>
  What the engine answers about one certificate of the peer's chain: the results of
  \<^verbatim>\<open>gnutls_x509_crt_init\<close> and \<^verbatim>\<open>gnutls_x509_crt_import\<close>, the two ends of the validity
  window, the distinguished-name query and the hostname match. The name query takes
  the size of the buffer and returns its result, the size it stores back and the
  content of the buffer after the call.
\<close>
record x509_cert =
  crt_init_ret :: int
  crt_import_ret :: int
  expiration_time :: int
  activation_time :: int
  crt_get_dn :: "nat \<Rightarrow> int \<times> nat \<times> string"
  crt_check_hostname :: "string \<Rightarrow> int"

text \<open>
  The surroundings of one verification: the clock (\<open>-1\<close> when \<^verbatim>\<open>time\<close> fails, with the
  text of \<^verbatim>\<open>errno\<close>), the result and status of \<^verbatim>\<open>gnutls_certificate_verify_peers2\<close>,
  the list \<^verbatim>\<open>gnutls_certificate_get_peers\<close> returns (\<open>None\<close> for \<^verbatim>\<open>NULL\<close>), and the
  authorization service, which returns its verdict and the error it stored.
\<close>
record verify_env =
  time_now :: int
  time_errno :: string
  verify_peers2 :: "int \<times> 32 word"
  get_peers :: "x509_cert list option"
  qauthz_is_allowed_by_id :: "string \<Rightarrow> string \<Rightarrow> bool \<times> Error option"

text \<open>
  The \<^verbatim>\<open>requery\<close> loop: ask for the name, and as long as the engine answers that the
  buffer is too short, grow the buffer to the size it stored and ask again. The loop
  has no bound of its own, so the result is \<open>None\<close> when it does not end.
\<close>
partial_function (option) requery ::
  "(nat \<Rightarrow> int \<times> nat \<times> string) \<Rightarrow> nat \<Rightarrow> (int \<times> string) option" where
  "requery get_dn dnameSize =
     (case get_dn dnameSize of
        (ret, dnameSize', buf) \<Rightarrow>
          if ret < 0 then
            (if ret = GNUTLS_E_SHORT_MEMORY_BUFFER then requery get_dn dnameSize'
             else Some (ret, buf))
          else Some (ret, buf))"

text \<open>
  The checks on the first certificate after its name is in \<open>peername\<close>: the
  authorization query, then the hostname. \<open>name\<close> is the content of
  \<open>peername\<close>, which is not \<^verbatim>\<open>NULL\<close> here; \<open>None\<close> means that the checks pass.
\<close>
definition check_leaf ::
  "verify_env \<Rightarrow> x509_cert \<Rightarrow> 'o QCryptoTLSSession \<Rightarrow> string \<Rightarrow> Error option" where
  "check_leaf env cert session name =
     (let authz_failure =
            (case authzid session of
               None \<Rightarrow> None
             | Some ident \<Rightarrow>
                 (case qauthz_is_allowed_by_id env ident name of
                    (allow, Some err) \<Rightarrow> Some err
                  | (allow, None) \<Rightarrow>
                      if \<not> allow then
                        Some (''TLS x509 authz check for '' @ name @ '' is denied'')
                      else None))
      in case authz_failure of
           Some e \<Rightarrow> Some e
         | None \<Rightarrow>
             (case hostname session of
                Some h \<Rightarrow>
                  if crt_check_hostname cert h = 0 then
                    Some (''Certificate does not match the hostname '' @ h)
                  else None
              | None \<Rightarrow>
                  if endpoint (creds session) = QCRYPTO_TLS_CREDS_ENDPOINT_CLIENT then
                    Some ''No hostname for certificate validation''
                  else None))"

text \<open>
  The loop of \<^verbatim>\<open>qcrypto_tls_session_check_certificate\<close> over the chain, from index
  \<open>i\<close> on.
\<close>
fun check_certificate_loop ::
  "build_config \<Rightarrow> verify_env \<Rightarrow> int \<Rightarrow> nat \<Rightarrow> x509_cert list \<Rightarrow> 'o QCryptoTLSSession
     \<Rightarrow> (int \<times> Error option \<times> 'o QCryptoTLSSession) option" where
  "check_certificate_loop cfg env now i [] session = Some (0, None, session)"
| "check_certificate_loop cfg env now i (cert # certs) session =
     (if crt_init_ret cert < 0 then
        Some (-1, Some (''Cannot initialize certificate: ''
                         @ gnutls_strerror cfg (crt_init_ret cert)), session)
      else if crt_import_ret cert < 0 then
        Some (-1, Some (''Cannot import certificate: ''
                         @ gnutls_strerror cfg (crt_import_ret cert)), session)
      else if expiration_time cert < now then
        Some (-1, Some ''The certificate has expired'', session)
      else if activation_time cert > now then
        Some (-1, Some ''The certificate is not yet activated'', session)
      else if activation_time cert > now then
        Some (-1, Some ''The certificate is not yet activated'', session)
      else if i = 0 then
        (case requery (crt_get_dn cert) 1024 of
           None \<Rightarrow> None
         | Some (ret, buf) \<Rightarrow>
             (let s1 = session\<lparr>peername := Some buf\<rparr>
              in if ret < 0 then
                   Some (-1, Some (''Cannot get client distinguished name: ''
                                    @ gnutls_strerror cfg ret), s1)
                 else
                   (case check_leaf env cert s1 buf of
                      Some e \<Rightarrow> Some (-1, Some e, s1)
                    | None \<Rightarrow> check_certificate_loop cfg env now (i + 1) certs s1)))
      else check_certificate_loop cfg env now (i + 1) certs session)"

definition verify_status_reason :: "32 word \<Rightarrow> string" where
  "verify_status_reason status =
     (let r0 = ''Invalid certificate'';
          r1 = (if status AND GNUTLS_CERT_INVALID \<noteq> 0
                then ''The certificate is not trusted'' else r0);
          r2 = (if status AND GNUTLS_CERT_SIGNER_NOT_FOUND \<noteq> 0
                then ''The certificate hasn't got a known issuer'' else r1);
          r3 = (if status AND GNUTLS_CERT_REVOKED \<noteq> 0
                then ''The certificate has been revoked'' else r2);
          r4 = (if status AND GNUTLS_CERT_INSECURE_ALGORITHM \<noteq> 0
                then ''The certificate uses an insecure algorithm'' else r3)
      in r4)"

definition qcrypto_tls_session_check_certificate ::
  "build_config \<Rightarrow> verify_env \<Rightarrow> 'o QCryptoTLSSession
     \<Rightarrow> (int \<times> Error option \<times> 'o QCryptoTLSSession) option" where
  "qcrypto_tls_session_check_certificate cfg env session =
     (let now = time_now env
      in if now = -1 then
           Some (-1, Some (''Cannot get current time: '' @ time_errno env), session)
         else
           (case verify_peers2 env of
              (ret, status) \<Rightarrow>
                if ret < 0 then
                  Some (-1, Some (''Verify failed: '' @ gnutls_strerror cfg ret), session)
                else if status \<noteq> 0 then
                  Some (-1, Some (verify_status_reason status), session)
                else
                  (case get_peers env of
                     None \<Rightarrow> Some (-1, Some ''No certificate peers'', session)
                   | Some certs \<Rightarrow> check_certificate_loop cfg env now 0 certs session)))"

definition qcrypto_tls_session_check_credentials ::
  "build_config \<Rightarrow> verify_env \<Rightarrow> 'o QCryptoTLSSession
     \<Rightarrow> (int \<times> Error option \<times> 'o QCryptoTLSSession) option" where
  "qcrypto_tls_session_check_credentials cfg env session =
     (case typename (creds session) of
        TYPE_QCRYPTO_TLS_CREDS_ANON \<Rightarrow> Some (0, None, session)
      | TYPE_QCRYPTO_TLS_CREDS_PSK \<Rightarrow> Some (0, None, session)
      | TYPE_QCRYPTO_TLS_CREDS_X509 \<Rightarrow>
          if verifyPeer (creds session) then
            qcrypto_tls_session_check_certificate cfg env session
          else Some (0, None, session)
      | TYPE_OTHER name \<Rightarrow>
          Some (-1, Some (''Unexpected credential type '' @ name), session))"

subsection \<open>Reading the log: the discipline of the guard\<close>

text \<open>
  The events that a run from session \<open>s\<close> to session \<open>s'\<close> added to the log.
\<close>
definition new_events :: "'o QCryptoTLSSession \<Rightarrow> 'o QCryptoTLSSession \<Rightarrow> event list" where
  "new_events s s' = drop (length (trace s)) (trace s')"

text \<open>
  One step of reading a log against the guard. The state is \<open>Some h\<close>, with \<open>h\<close>
  telling whether the mutex is held, as long as the log respects the discipline, and
  \<open>None\<close> from the first violation on. A violation is: to lock the mutex while it is
  held or to unlock it while it is not; to invoke a transport callback while it is
  held; to enter or leave an engine function among those selected by \<open>P\<close> while it
  is not held.
\<close>
fun guard_step :: "(engine_fn \<Rightarrow> bool) \<Rightarrow> bool option \<Rightarrow> event \<Rightarrow> bool option" where
  "guard_step P None e = None"
| "guard_step P (Some h) MutexLock = (if h then None else Some True)"
| "guard_step P (Some h) MutexUnlock = (if h then Some False else None)"
| "guard_step P (Some h) (Callback d) = (if h then None else Some h)"
| "guard_step P (Some h) (EngineEnter f) = (if P f \<and> \<not> h then None else Some h)"
| "guard_step P (Some h) (EngineLeave f) = (if P f \<and> \<not> h then None else Some h)"
| "guard_step P (Some h) (ErrorFree d) = Some h"
| "guard_step P (Some h) WarnReport = Some h"

text \<open>
  A log of an operation respects the guard when, read from the state "not held", it
  has no violation and leaves the mutex not held.
\<close>
definition guard_ok :: "(engine_fn \<Rightarrow> bool) \<Rightarrow> event list \<Rightarrow> bool" where
  "guard_ok P evs = (foldl (guard_step P) (Some False) evs = Some False)"

definition every_engine_fn :: "engine_fn \<Rightarrow> bool" where
  "every_engine_fn f = True"

definition all_but_direction_query :: "engine_fn \<Rightarrow> bool" where
  "all_but_direction_query f = (f \<noteq> gnutls_record_get_direction)"

subsection \<open>The life of a session as a sequence of calls\<close>

text \<open>The calls of the public interface on an existing session, with their inputs.\<close>
datatype 'o api_call =
  ApiWrite string "string \<Rightarrow> int engine_run"
  | ApiRead nat bool "nat \<Rightarrow> (int \<times> string) engine_run"
  | ApiHandshake "int engine_run" gnutls_protocol_t gnutls_cipher_algorithm_t int
  | ApiBye "int engine_run" int
  | ApiCheckCredentials verify_env
  | ApiSetCallbacks
      "(string \<Rightarrow> 'o option \<Rightarrow> (int \<times> Error option) \<times> 'o option) option"
      "(nat \<Rightarrow> 'o option \<Rightarrow> (int \<times> string \<times> Error option) \<times> 'o option) option"
      "'o option"
  | ApiRequireThreadSafety
  | ApiCheckPending nat
  | ApiGetKeySize nat
  | ApiGetPeerName

text \<open>
  The value a call returns (its integer result, \<open>0\<close> for the calls that return
  nothing or a string) and the session after it; \<open>None\<close> when the call does not
  return.
\<close>
fun api_step ::
  "build_config \<Rightarrow> 'o QCryptoTLSSession \<Rightarrow> 'o api_call \<Rightarrow> (int \<times> 'o QCryptoTLSSession) option" where
  "api_step cfg s (ApiWrite buf send) =
     (case qcrypto_tls_session_write cfg s buf send of (r, e, s') \<Rightarrow> Some (r, s'))"
| "api_step cfg s (ApiRead len graceful recv) =
     (case qcrypto_tls_session_read cfg s len graceful recv of (r, b, e, s') \<Rightarrow> Some (r, s'))"
| "api_step cfg s (ApiHandshake run version cipher dir) =
     (case qcrypto_tls_session_handshake cfg s run version cipher dir of
        (r, e, s') \<Rightarrow> Some (r, s'))"
| "api_step cfg s (ApiBye run dir) =
     (case qcrypto_tls_session_bye cfg s run dir of (r, e, s') \<Rightarrow> Some (r, s'))"
| "api_step cfg s (ApiCheckCredentials env) =
     (case qcrypto_tls_session_check_credentials cfg env s of
        None \<Rightarrow> None
      | Some (r, e, s') \<Rightarrow> Some (r, s'))"
| "api_step cfg s (ApiSetCallbacks wfun rfun ctx) =
     Some (0, qcrypto_tls_session_set_callbacks s wfun rfun ctx)"
| "api_step cfg s ApiRequireThreadSafety =
     Some (0, qcrypto_tls_session_require_thread_safety s)"
| "api_step cfg s (ApiCheckPending pending) =
     (case qcrypto_tls_session_check_pending s pending of (n, s') \<Rightarrow> Some (int n, s'))"
| "api_step cfg s (ApiGetKeySize key_size) =
     (case qcrypto_tls_session_get_key_size s key_size of (r, e, s') \<Rightarrow> Some (r, s'))"
| "api_step cfg s ApiGetPeerName = Some (0, s)"

fun api_run ::
  "build_config \<Rightarrow> 'o QCryptoTLSSession \<Rightarrow> 'o api_call list \<Rightarrow> 'o QCryptoTLSSession option" where
  "api_run cfg s [] = Some s"
| "api_run cfg s (c # cs) =
     (case api_step cfg s c of None \<Rightarrow> None | Some (r, s') \<Rightarrow> api_run cfg s' cs)"

subsection \<open>Auxiliary notions for the statements\<close>

text \<open>
  A run from \<open>s\<close> to \<open>s'\<close> that starts and ends with the mutex held, keeps the
  guard engaged and respects the discipline in between.
\<close>

definition guarded_run ::
  "(engine_fn \<Rightarrow> bool) \<Rightarrow> 'o QCryptoTLSSession \<Rightarrow> 'o QCryptoTLSSession \<Rightarrow> bool" where
  "guarded_run P s s' =
     (lockEnabled s' \<and>
      (\<exists>evs. trace s' = trace s @ evs \<and> foldl (guard_step P) (Some True) evs = Some True))"

text \<open>
  The first certificate of the chain, if the verification gets as far as asking for
  its distinguished name: the session has X.509 credentials with peer verification,
  the clock and the chain verification succeed, the chain has a first certificate, and
  that certificate is initialised, imported and inside its validity window.
\<close>

definition leaf_reached :: "verify_env \<Rightarrow> 'o QCryptoTLSSession \<Rightarrow> x509_cert option" where
  "leaf_reached env s =
     (if typename (creds s) = TYPE_QCRYPTO_TLS_CREDS_X509 \<and> verifyPeer (creds s)
         \<and> time_now env \<noteq> -1 \<and> 0 \<le> fst (verify_peers2 env) \<and> snd (verify_peers2 env) = 0
      then (case get_peers env of
              Some (cert # certs) \<Rightarrow>
                if 0 \<le> crt_init_ret cert \<and> 0 \<le> crt_import_ret cert
                   \<and> time_now env \<le> expiration_time cert \<and> activation_time cert \<le> time_now env
                then Some cert else None
            | _ \<Rightarrow> None)
      else None)"


subsection \<open>Sample sessions and surroundings\<close>

text \<open>
  Concrete inputs on which the theorems below are exercised: a build with the
  workaround compiled in, client credentials of the X.509 kind with peer
  verification, and an engine that accepts everything during construction.
\<close>

definition sample_cfg :: build_config where
  "sample_cfg = \<lparr>CONFIG_TLS_PRIORITY = ''NORMAL'', CONFIG_GNUTLS_BUG1717_WORKAROUND = True,
                  gnutls_strerror = (\<lambda>code. ''Error in the push function.'')\<rparr>"

definition sample_creds :: QCryptoTLSCreds where
  "sample_creds = \<lparr>endpoint = QCRYPTO_TLS_CREDS_ENDPOINT_CLIENT, priority = None,
                    verifyPeer = True, typename = TYPE_QCRYPTO_TLS_CREDS_X509\<rparr>"

definition sample_new_env :: new_env where
  "sample_new_env = \<lparr>init_ret = 0, init_handle = 1, priority_set_ret = (\<lambda>prio. 0),
                      credentials_set_ret = 0\<rparr>"

text \<open>
  The session that the construction returns for these inputs (see
  \<open>client_session_constructed\<close>), then the same session with two callbacks that
  report a reset connection, with thread safety required, and after a handshake step
  that completes with TLS 1.3 and a cipher other than CHACHA20-POLY1305, which engages
  the guard.
\<close>

definition client_session :: "unit QCryptoTLSSession" where
  "client_session =
     \<lparr>creds = sample_creds, handle = 1, hostname = None, authzid = None,
      handshakeComplete = False, writeFunc = None, readFunc = None, opaque = None,
      peername = None, rerr = None, werr = None, requireThreadSafety = False,
      lockEnabled = False,
      trace = engine_events [gnutls_init, gnutls_priority_set_direct, gnutls_credentials_set,
                             gnutls_transport_set, gnutls_transport_set, gnutls_transport_set]\<rparr>"

definition reset_write :: "string \<Rightarrow> unit option \<Rightarrow> (int \<times> Error option) \<times> unit option" where
  "reset_write buf ctx = ((-1, Some ''Connection reset by peer''), ctx)"

definition reset_read :: "nat \<Rightarrow> unit option \<Rightarrow> (int \<times> string \<times> Error option) \<times> unit option" where
  "reset_read len ctx = ((-1, [], Some ''Connection reset by peer''), ctx)"

definition wired_session :: "unit QCryptoTLSSession" where
  "wired_session =
     qcrypto_tls_session_set_callbacks client_session (Some reset_write) (Some reset_read) (Some ())"

definition threadsafe_session :: "unit QCryptoTLSSession" where
  "threadsafe_session = qcrypto_tls_session_require_thread_safety wired_session"

definition locked_session :: "unit QCryptoTLSSession" where
  "locked_session =
     snd (snd (qcrypto_tls_session_handshake sample_cfg threadsafe_session (Done 0)
                 GNUTLS_TLS1_3 (GNUTLS_CIPHER_OTHER 0) 0))"

text \<open>
  Engines that push the whole buffer, or pull once, and fail when the bridge fails; a
  read callback at the end of the stream and an engine that takes the end of the
  stream for a premature termination; calls made after the handshake.
\<close>

definition sending_engine :: "string \<Rightarrow> int engine_run" where
  "sending_engine buf = DoPush buf (\<lambda>res. Done (if fst res < 0 then -53 else fst res))"

definition receiving_engine :: "nat \<Rightarrow> (int \<times> string) engine_run" where
  "receiving_engine len =
     DoPull len (\<lambda>res. Done (if fst (fst res) < 0 then -54 else fst (fst res), snd res))"

definition eof_read :: "nat \<Rightarrow> unit option \<Rightarrow> (int \<times> string \<times> Error option) \<times> unit option" where
  "eof_read len ctx = ((0, [], None), ctx)"

definition eof_session :: "unit QCryptoTLSSession" where
  "eof_session = qcrypto_tls_session_set_callbacks client_session None (Some eof_read) None"

definition truncated_engine :: "nat \<Rightarrow> (int \<times> string) engine_run" where
  "truncated_engine len =
     DoPull len (\<lambda>res. Done (if fst (fst res) = 0 then GNUTLS_E_PREMATURE_TERMINATION
                               else fst (fst res), snd res))"

text \<open>
  Two chains of one certificate each, valid at time 1000: one whose name fits in the
  first buffer and which matches no hostname, and one whose name needs a second query
  and which matches \<open>good.example\<close>.
\<close>

definition evil_cert :: x509_cert where
  "evil_cert = \<lparr>crt_init_ret = 0, crt_import_ret = 0, expiration_time = 2000,
                 activation_time = 0, crt_get_dn = (\<lambda>bufsize. (0, 7, ''CN=evil'')),
                 crt_check_hostname = (\<lambda>name. 0)\<rparr>"

definition good_cert :: x509_cert where
  "good_cert = \<lparr>crt_init_ret = 0, crt_import_ret = 0, expiration_time = 2000,
                 activation_time = 0,
                 crt_get_dn = (\<lambda>bufsize. if bufsize < 2000 then (GNUTLS_E_SHORT_MEMORY_BUFFER, 2000, [])
                                       else (0, 7, ''CN=good'')),
                 crt_check_hostname = (\<lambda>name. if name = ''good.example'' then 1 else 0)\<rparr>"

definition evil_env :: verify_env where
  "evil_env = \<lparr>time_now = 1000, time_errno = [], verify_peers2 = (0, 0),
                get_peers = Some [evil_cert],
                qauthz_is_allowed_by_id = (\<lambda>ident name. (True, None))\<rparr>"

definition good_env :: verify_env where
  "good_env = \<lparr>time_now = 1000, time_errno = [], verify_peers2 = (0, 0),
                get_peers = Some [good_cert],
                qauthz_is_allowed_by_id = (\<lambda>ident name. (True, None))\<rparr>"




definition named_session :: "unit QCryptoTLSSession" where
  "named_session = client_session\<lparr>hostname := Some ''good.example''\<rparr>"

definition later_calls :: "unit api_call list" where
  "later_calls = [ApiWrite ''hello'' sending_engine, ApiRead 16 False receiving_engine,
                  ApiCheckCredentials evil_env, ApiBye (Done (-10)) 0]"

definition failed_construction :: "event list \<times> (Error + unit QCryptoTLSSession)" where
  "failed_construction =
     qcrypto_tls_session_new sample_cfg sample_new_env sample_creds None None
       QCRYPTO_TLS_CREDS_ENDPOINT_SERVER"

section \<open>Properties\<close>

subsection \<open>Facts about the sample inputs\<close>

lemma client_session_constructed:
  "qcrypto_tls_session_new sample_cfg sample_new_env sample_creds None None
     QCRYPTO_TLS_CREDS_ENDPOINT_CLIENT = (trace client_session, Inr client_session)"
  by (simp add: qcrypto_tls_session_new_def sample_new_env_def sample_creds_def sample_cfg_def
      client_session_def Let_def engine_events_def)

lemma named_session_constructed:
  "qcrypto_tls_session_new sample_cfg sample_new_env sample_creds (Some ''good.example'') None
     QCRYPTO_TLS_CREDS_ENDPOINT_CLIENT = (trace named_session, Inr named_session)"
  by (simp add: qcrypto_tls_session_new_def sample_new_env_def sample_creds_def sample_cfg_def
      named_session_def client_session_def Let_def engine_events_def)

lemma wired_session_fields:
  "writeFunc wired_session = Some reset_write" "readFunc wired_session = Some reset_read"
  "opaque wired_session = Some ()" "lockEnabled wired_session = False"
  by (simp_all add: wired_session_def qcrypto_tls_session_set_callbacks_def client_session_def)

lemma locked_session_fields:
  "lockEnabled locked_session" "handshakeComplete locked_session"
  "writeFunc locked_session = Some reset_write" "readFunc locked_session = Some reset_read"
  "opaque locked_session = Some ()"
  by (simp_all add: locked_session_def qcrypto_tls_session_handshake_def engine_call_def
      emit_def engine_query_def Let_def threadsafe_session_def wired_session_def
      qcrypto_tls_session_require_thread_safety_def qcrypto_tls_session_set_callbacks_def
      sample_cfg_def client_session_def)

lemma locked_session_handshake:
  "qcrypto_tls_session_handshake sample_cfg threadsafe_session (Done 0)
     GNUTLS_TLS1_3 (GNUTLS_CIPHER_OTHER 0) 0 = (QCRYPTO_TLS_HANDSHAKE_COMPLETE, None, locked_session)"
  by (simp add: locked_session_def qcrypto_tls_session_handshake_def engine_call_def
      emit_def engine_query_def Let_def threadsafe_session_def wired_session_def
      qcrypto_tls_session_require_thread_safety_def qcrypto_tls_session_set_callbacks_def
      sample_cfg_def client_session_def)

lemma eof_session_fields:
  "readFunc eof_session = Some eof_read" "lockEnabled eof_session = False"
  "opaque eof_session = None"
  by (simp_all add: eof_session_def qcrypto_tls_session_set_callbacks_def client_session_def)

lemma requery_returns:
  "get_dn sz = (ret, sz', buf) \<Longrightarrow> ret \<noteq> GNUTLS_E_SHORT_MEMORY_BUFFER
     \<Longrightarrow> requery get_dn sz = Some (ret, buf)"
  by (subst requery.simps) simp

lemma requery_again:
  "get_dn sz = (GNUTLS_E_SHORT_MEMORY_BUFFER, sz', buf)
     \<Longrightarrow> requery get_dn sz = requery get_dn sz'"
  by (subst requery.simps) (simp add: GNUTLS_E_SHORT_MEMORY_BUFFER_def)

lemma requery_evil: "requery (crt_get_dn evil_cert) 1024 = Some (0, ''CN=evil'')"
  by (rule requery_returns [where sz' = 7])
     (simp_all add: evil_cert_def GNUTLS_E_SHORT_MEMORY_BUFFER_def)

lemma requery_good: "requery (crt_get_dn good_cert) 1024 = Some (0, ''CN=good'')"
proof -
  have "requery (crt_get_dn good_cert) 1024 = requery (crt_get_dn good_cert) 2000"
    by (rule requery_again [where buf = "[]"]) (simp add: good_cert_def)
  also have "\<dots> = Some (0, ''CN=good'')"
    by (rule requery_returns [where sz' = 7])
       (simp_all add: good_cert_def GNUTLS_E_SHORT_MEMORY_BUFFER_def)
  finally show ?thesis .
qed

subsection \<open>The peer name\<close>

lemma check_certificate_loop_later_peername:
  "0 < i \<Longrightarrow> check_certificate_loop cfg env now i certs s = Some (r, e, s')
     \<Longrightarrow> peername s' = peername s"
proof (induction certs arbitrary: i)
  case Nil
  then show ?case by simp
next
  case (Cons cert certs)
  show ?case
  proof (cases "crt_init_ret cert < 0 \<or> crt_import_ret cert < 0 \<or> expiration_time cert < now
                  \<or> activation_time cert > now")
    case True
    then show ?thesis using Cons.prems by (auto split: if_splits)
  next
    case False
    then have "check_certificate_loop cfg env now (i + 1) certs s = Some (r, e, s')"
      using Cons.prems by auto
    then show ?thesis using Cons.IH [of "i + 1"] by simp
  qed
qed

lemma check_certificate_loop_leaf_peername:
  assumes "check_certificate_loop cfg env now 0 (cert # certs) s = Some (r, e, s')"
  shows "peername s' =
           (if 0 \<le> crt_init_ret cert \<and> 0 \<le> crt_import_ret cert
               \<and> now \<le> expiration_time cert \<and> activation_time cert \<le> now
            then map_option snd (requery (crt_get_dn cert) 1024) else peername s)"
proof (cases "crt_init_ret cert < 0 \<or> crt_import_ret cert < 0 \<or> expiration_time cert < now
                  \<or> activation_time cert > now")
  case True
  then show ?thesis using assms by (auto split: if_splits)
next
  case ok: False
  from assms ok obtain ret buf where q: "requery (crt_get_dn cert) 1024 = Some (ret, buf)"
    by (auto split: option.splits)
  let ?s1 = "s\<lparr>peername := Some buf\<rparr>"
  have "peername s' = Some buf"
  proof (cases "ret < 0 \<or> check_leaf env cert ?s1 buf \<noteq> None")
    case True
    then show ?thesis using assms ok q by (auto simp: Let_def split: if_splits option.splits)
  next
    case False
    then have "check_certificate_loop cfg env now (0 + 1) certs ?s1 = Some (r, e, s')"
      using assms ok q by (auto simp: Let_def)
    then show ?thesis using check_certificate_loop_later_peername [of "0 + 1"] by fastforce
  qed
  then show ?thesis using ok q by auto
qed

lemma check_credentials_peername:
  assumes "qcrypto_tls_session_check_credentials cfg env s = Some (r, e, s')"
  shows "peername s' = (case leaf_reached env s of
                          Some cert \<Rightarrow> map_option snd (requery (crt_get_dn cert) 1024)
                        | None \<Rightarrow> peername s)
       \<and> qcrypto_tls_session_get_peer_name s' = peername s'"
proof
  show "qcrypto_tls_session_get_peer_name s' = peername s'"
    by (simp add: qcrypto_tls_session_get_peer_name_def split: option.splits)
  show "peername s' = (case leaf_reached env s of
                          Some cert \<Rightarrow> map_option snd (requery (crt_get_dn cert) 1024)
                        | None \<Rightarrow> peername s)"
  proof (cases "typename (creds s) = TYPE_QCRYPTO_TLS_CREDS_X509 \<and> verifyPeer (creds s)")
    case False
    then show ?thesis using assms
      by (auto simp: qcrypto_tls_session_check_credentials_def leaf_reached_def
          split: creds_type.splits if_splits)
  next
    case x: True
    then have c: "qcrypto_tls_session_check_certificate cfg env s = Some (r, e, s')"
      using assms by (simp add: qcrypto_tls_session_check_credentials_def)
    obtain vret status where v: "verify_peers2 env = (vret, status)"
      by (metis prod.exhaust)
    show ?thesis
    proof (cases "time_now env = -1 \<or> vret < 0 \<or> status \<noteq> 0 \<or> get_peers env = None")
      case True
      then show ?thesis using c v
        by (auto simp: qcrypto_tls_session_check_certificate_def leaf_reached_def Let_def
            split: if_splits)
    next
      case False
      then obtain certs where g: "get_peers env = Some certs" by auto
      have l: "check_certificate_loop cfg env (time_now env) 0 certs s = Some (r, e, s')"
        using c v False g by (simp add: qcrypto_tls_session_check_certificate_def Let_def)
      show ?thesis
      proof (cases certs)
        case Nil
        then show ?thesis using l g by (simp add: leaf_reached_def)
      next
        case (Cons cert rest)
        then show ?thesis
          using check_certificate_loop_leaf_peername [of cfg env "time_now env" cert rest s r e s'] l g x v False
          by (simp add: leaf_reached_def)
      qed
    qed
  qed
qed

lemma push_peername: "peername (snd (qcrypto_tls_session_push s buf)) = peername s"
  by (simp add: qcrypto_tls_session_push_def Let_def emit_def qemu_mutex_lock_def
      qemu_mutex_unlock_def split: option.splits prod.splits)

lemma pull_peername: "peername (snd (qcrypto_tls_session_pull s len)) = peername s"
  by (simp add: qcrypto_tls_session_pull_def Let_def emit_def qemu_mutex_lock_def
      qemu_mutex_unlock_def split: option.splits prod.splits)

lemma run_engine_peername: "peername (snd (run_engine run s)) = peername s"
proof (induction run arbitrary: s)
  case (Done r)
  show ?case by simp
next
  case (DoPush buf k)
  obtain res s' where p: "qcrypto_tls_session_push s buf = (res, s')"
    by (metis prod.exhaust)
  have "peername s' = peername s" using push_peername [of s buf] p by simp
  moreover have "peername (snd (run_engine (k res) s')) = peername s'"
    using DoPush.IH [of "k res" s'] by blast
  ultimately show ?case using p by simp
next
  case (DoPull len k)
  obtain res s' where p: "qcrypto_tls_session_pull s len = (res, s')"
    by (metis prod.exhaust)
  have "peername s' = peername s" using pull_peername [of s len] p by simp
  moreover have "peername (snd (run_engine (k res) s')) = peername s'"
    using DoPull.IH [of "k res" s'] by blast
  ultimately show ?case using p by simp
qed

lemma engine_call_peername:
  assumes "engine_call f run s = (r, s')"
  shows "peername s' = peername s"
proof -
  obtain r0 s0 where c: "run_engine run (emit (EngineEnter f) s) = (r0, s0)"
    by (metis prod.exhaust)
  have "peername s0 = peername (emit (EngineEnter f) s)"
    using run_engine_peername [of run "emit (EngineEnter f) s"] c by simp
  then show ?thesis using assms unfolding engine_call_def c by (auto simp: emit_def)
qed

lemma write_peername:
  "peername (snd (snd (qcrypto_tls_session_write cfg s buf send))) = peername s"
proof -
  let ?s1 = "if lockEnabled s then qemu_mutex_lock s else s"
  obtain ret s2 where c: "engine_call gnutls_record_send (send buf) ?s1 = (ret, s2)"
    by (metis prod.exhaust)
  have "peername s2 = peername ?s1" using engine_call_peername [OF c] .
  then have h: "peername s2 = peername s" by (simp add: qemu_mutex_lock_def emit_def)
  show ?thesis
    unfolding qcrypto_tls_session_write_def Let_def c
    using h by (simp add: qemu_mutex_unlock_def emit_def split: option.splits)
qed

lemma read_peername:
  "peername (snd (snd (snd (qcrypto_tls_session_read cfg s len g recv)))) = peername s"
proof -
  let ?s1 = "if lockEnabled s then qemu_mutex_lock s else s"
  obtain ret b s2 where c: "engine_call gnutls_record_recv (recv len) ?s1 = ((ret, b), s2)"
    by (metis prod.exhaust)
  have "peername s2 = peername ?s1" using engine_call_peername [OF c] .
  then have h: "peername s2 = peername s" by (simp add: qemu_mutex_lock_def emit_def)
  show ?thesis
    unfolding qcrypto_tls_session_read_def Let_def c
    using h by (simp add: qemu_mutex_unlock_def emit_def split: option.splits)
qed

lemma report_failure_peername:
  "peername (snd (snd (report_failure cfg what ret s))) = peername s"
  by (simp add: report_failure_def Let_def emit_def)

lemma bye_peername:
  "peername (snd (snd (qcrypto_tls_session_bye cfg s run dir))) = peername s"
proof (cases "handshakeComplete s")
  case False
  then show ?thesis by (simp add: qcrypto_tls_session_bye_def)
next
  case True
  let ?s1 = "if lockEnabled s then qemu_mutex_lock s else s"
  obtain ret s2 where c: "engine_call gnutls_bye run ?s1 = (ret, s2)"
    by (metis prod.exhaust)
  have "peername s2 = peername ?s1" using engine_call_peername [OF c] .
  then have h: "peername s2 = peername s" by (simp add: qemu_mutex_lock_def emit_def)
  show ?thesis
    unfolding qcrypto_tls_session_bye_def Let_def c
    using h True
    by (simp add: qemu_mutex_unlock_def emit_def engine_query_def report_failure_peername)
qed

lemma handshake_peername:
  "peername (snd (snd (qcrypto_tls_session_handshake cfg s run version cipher dir))) = peername s"
proof -
  obtain ret s1 where c: "engine_call gnutls_handshake run s = (ret, s1)"
    by (metis prod.exhaust)
  have h: "peername s1 = peername s" using engine_call_peername [OF c] .
  show ?thesis
    unfolding qcrypto_tls_session_handshake_def Let_def c
    using h by (simp add: emit_def engine_query_def report_failure_peername)
qed

lemma new_peername:
  assumes "snd (qcrypto_tls_session_new cfg nenv c host authz ep) = Inr s0"
  shows "peername s0 = None"
  using assms
  by (auto simp: qcrypto_tls_session_new_def Let_def
      split: if_splits prod.splits sum.splits)

text \<open>
  Claim C1 says that \<open>peer_name\<close> is set at most once, only after the
  authorization and hostname checks of the leaf have passed, and stays unset when one
  of them fails. The code stores the name first and checks afterwards, in every run of
  the check: for a session that expects \<open>good.example\<close> and a leaf that matches no
  hostname, the verification fails with the hostname error, and the session that
  comes back carries the leaf's name, which the accessor returns; a second
  verification of that session, against a chain whose leaf matches, then replaces the
  name by the name of the new leaf.
\<close>

theorem peer_name_set_before_checks_and_again:
  "qcrypto_tls_session_check_credentials sample_cfg evil_env named_session
     = Some (-1, Some ''Certificate does not match the hostname good.example'',
             named_session\<lparr>peername := Some ''CN=evil''\<rparr>)
   \<and> qcrypto_tls_session_get_peer_name (named_session\<lparr>peername := Some ''CN=evil''\<rparr>)
     = Some ''CN=evil''
   \<and> qcrypto_tls_session_check_credentials sample_cfg good_env
        (named_session\<lparr>peername := Some ''CN=evil''\<rparr>)
     = Some (0, None, named_session\<lparr>peername := Some ''CN=good''\<rparr>)"
proof (intro conjI)
  show "qcrypto_tls_session_check_credentials sample_cfg evil_env named_session
     = Some (-1, Some ''Certificate does not match the hostname good.example'',
             named_session\<lparr>peername := Some ''CN=evil''\<rparr>)"
    by (simp add: qcrypto_tls_session_check_credentials_def
      qcrypto_tls_session_check_certificate_def Let_def requery_evil check_leaf_def
      named_session_def client_session_def sample_creds_def evil_env_def)
     (simp add: evil_cert_def)
  show "qcrypto_tls_session_get_peer_name (named_session\<lparr>peername := Some ''CN=evil''\<rparr>)
     = Some ''CN=evil''"
    by (simp add: qcrypto_tls_session_get_peer_name_def)
  show "qcrypto_tls_session_check_credentials sample_cfg good_env
        (named_session\<lparr>peername := Some ''CN=evil''\<rparr>)
     = Some (0, None, named_session\<lparr>peername := Some ''CN=good''\<rparr>)"
    by (simp add: qcrypto_tls_session_check_credentials_def
      qcrypto_tls_session_check_certificate_def Let_def requery_good check_leaf_def
      named_session_def client_session_def sample_creds_def good_env_def)
     (simp add: good_cert_def)
qed

text \<open>
  Claim C1, as the code has it: a new session has no \<open>peer_name\<close>. A call of the
  interface other than the credentials check leaves \<open>peer_name\<close> as it is, and so do
  the two functions of the transport bridge. A credentials check that returns leaves
  in \<open>peer_name\<close> the buffer of the leaf's distinguished-name query if the
  verification reached that query (X.509 credentials with peer verification, clock,
  chain verification, and the leaf's initialisation, import and validity window all in
  order), whatever the authorization and hostname checks say afterwards, and on every
  such run; otherwise it leaves \<open>peer_name\<close> as it was. The accessor returns the
  field.
\<close>

theorem peer_name_written_only_at_leaf:
  "(snd (qcrypto_tls_session_new cfg nenv c host authz ep) = Inr s0 \<longrightarrow> peername s0 = None)
   \<and> (api_step cfg s call = Some (r, s')
        \<longrightarrow> peername s'
              = (case call of
                   ApiCheckCredentials env \<Rightarrow>
                     (case leaf_reached env s of
                        Some cert \<Rightarrow> map_option snd (requery (crt_get_dn cert) 1024)
                      | None \<Rightarrow> peername s)
                 | _ \<Rightarrow> peername s)
            \<and> qcrypto_tls_session_get_peer_name s' = peername s')
   \<and> peername (snd (qcrypto_tls_session_push s buf)) = peername s
   \<and> peername (snd (qcrypto_tls_session_pull s len)) = peername s"
proof (intro conjI impI)
  assume "snd (qcrypto_tls_session_new cfg nenv c host authz ep) = Inr s0"
  then show "peername s0 = None" by (rule new_peername)
next
  show "peername (snd (qcrypto_tls_session_push s buf)) = peername s" by (rule push_peername)
  show "peername (snd (qcrypto_tls_session_pull s len)) = peername s" by (rule pull_peername)
next
  assume a: "api_step cfg s call = Some (r, s')"
  show "qcrypto_tls_session_get_peer_name s' = peername s'"
    by (simp add: qcrypto_tls_session_get_peer_name_def split: option.splits)
  show "peername s'
              = (case call of
                   ApiCheckCredentials env \<Rightarrow>
                     (case leaf_reached env s of
                        Some cert \<Rightarrow> map_option snd (requery (crt_get_dn cert) 1024)
                      | None \<Rightarrow> peername s)
                 | _ \<Rightarrow> peername s)"
  proof (cases call)
    case (ApiWrite buf send)
    then show ?thesis using a write_peername [of cfg s buf send] by (auto split: prod.splits)
  next
    case (ApiRead len g recv)
    then show ?thesis using a read_peername [of cfg s len g recv] by (auto split: prod.splits)
  next
    case (ApiHandshake run version cipher dir)
    then show ?thesis using a handshake_peername [of cfg s run version cipher dir]
      by (auto split: prod.splits)
  next
    case (ApiBye run dir)
    then show ?thesis using a bye_peername [of cfg s run dir] by (auto split: prod.splits)
  next
    case (ApiCheckCredentials env)
    then obtain e where "qcrypto_tls_session_check_credentials cfg env s = Some (r, e, s')"
      using a by (auto split: option.splits prod.splits)
    then show ?thesis using check_credentials_peername ApiCheckCredentials by fastforce
  next
    case (ApiSetCallbacks wfun rfun ctx)
    then show ?thesis using a by (auto simp: qcrypto_tls_session_set_callbacks_def)
  next
    case ApiRequireThreadSafety
    then show ?thesis using a by (auto simp: qcrypto_tls_session_require_thread_safety_def)
  next
    case (ApiCheckPending n)
    then show ?thesis using a
      by (auto simp: qcrypto_tls_session_check_pending_def engine_query_def emit_def)
  next
    case (ApiGetKeySize k)
    then show ?thesis using a
      by (auto simp: qcrypto_tls_session_get_key_size_def engine_query_def emit_def Let_def
          split: if_splits)
  next
    case ApiGetPeerName
    then show ?thesis using a by auto
  qed
qed

text \<open>
  The statement for claim C1 at the constructed sample session and at a credentials
  check against the sample chain whose leaf matches the expected hostname: the new
  session has no name, the check succeeds and the name is the leaf's.
\<close>

theorem peer_name_written_only_at_leaf_witness:
  "snd (qcrypto_tls_session_new sample_cfg sample_new_env sample_creds None None
          QCRYPTO_TLS_CREDS_ENDPOINT_CLIENT) = Inr client_session
   \<and> peername client_session = None
   \<and> api_step sample_cfg named_session (ApiCheckCredentials good_env)
       = Some (0, named_session\<lparr>peername := Some ''CN=good''\<rparr>)
   \<and> peername (named_session\<lparr>peername := Some ''CN=good''\<rparr>)
       = (case leaf_reached good_env named_session of
            Some cert \<Rightarrow> map_option snd (requery (crt_get_dn cert) 1024)
          | None \<Rightarrow> peername named_session)
   \<and> qcrypto_tls_session_get_peer_name (named_session\<lparr>peername := Some ''CN=good''\<rparr>)
       = peername (named_session\<lparr>peername := Some ''CN=good''\<rparr>)"
proof -
  have n: "snd (qcrypto_tls_session_new sample_cfg sample_new_env sample_creds None None
          QCRYPTO_TLS_CREDS_ENDPOINT_CLIENT) = Inr client_session"
    by (simp add: client_session_constructed)
  have h: "qcrypto_tls_session_check_credentials sample_cfg good_env named_session
     = Some (0, None, named_session\<lparr>peername := Some ''CN=good''\<rparr>)"
    by (simp add: qcrypto_tls_session_check_credentials_def
      qcrypto_tls_session_check_certificate_def Let_def requery_good check_leaf_def
      named_session_def client_session_def sample_creds_def good_env_def)
     (simp add: good_cert_def)
  have st: "api_step sample_cfg named_session (ApiCheckCredentials good_env)
       = Some (0, named_session\<lparr>peername := Some ''CN=good''\<rparr>)"
    by (simp add: h)
  note t = peer_name_written_only_at_leaf [of sample_cfg sample_new_env sample_creds None None
      QCRYPTO_TLS_CREDS_ENDPOINT_CLIENT client_session named_session
      "ApiCheckCredentials good_env" 0 "named_session\<lparr>peername := Some ''CN=good''\<rparr>"
      "''hello''" 16]
  have "peername client_session = None" using t n by blast
  moreover have "peername (named_session\<lparr>peername := Some ''CN=good''\<rparr>)
       = (case leaf_reached good_env named_session of
            Some cert \<Rightarrow> map_option snd (requery (crt_get_dn cert) 1024)
          | None \<Rightarrow> peername named_session)"
    using t st by auto
  moreover have "qcrypto_tls_session_get_peer_name (named_session\<lparr>peername := Some ''CN=good''\<rparr>)
       = peername (named_session\<lparr>peername := Some ''CN=good''\<rparr>)"
    using t st by blast
  ultimately show ?thesis using n st by blast
qed

subsection \<open>A client without a hostname\<close>






subsection \<open>The guard around the engine\<close>

lemma guarded_run_refl: "lockEnabled s \<Longrightarrow> guarded_run P s s"
  by (simp add: guarded_run_def)

lemma guarded_run_trans:
  assumes "guarded_run P s s'" and "guarded_run P s' s''"
  shows "guarded_run P s s''"
proof -
  from assms obtain e1 e2 where
    e1: "trace s' = trace s @ e1" "foldl (guard_step P) (Some True) e1 = Some True" and
    e2: "trace s'' = trace s' @ e2" "foldl (guard_step P) (Some True) e2 = Some True" and
    l: "lockEnabled s''"
    unfolding guarded_run_def by blast
  have "trace s'' = trace s @ (e1 @ e2)" using e1 e2 by simp
  moreover have "foldl (guard_step P) (Some True) (e1 @ e2) = Some True"
    using e1 e2 by simp
  ultimately show ?thesis using l unfolding guarded_run_def by blast
qed

lemma push_guarded:
  assumes "lockEnabled s"
  shows "guarded_run P s (snd (qcrypto_tls_session_push s buf))"
proof (cases "writeFunc s")
  case None
  then show ?thesis using assms
    by (simp add: qcrypto_tls_session_push_def guarded_run_def)
next
  case (Some f)
  obtain ret err ctx where f: "f buf (opaque s) = ((ret, err), ctx)"
    by (metis prod.exhaust)
  have "trace (snd (qcrypto_tls_session_push s buf))
          = trace s @ [MutexUnlock, ErrorFree Wr, Callback Wr, MutexLock]"
    and "lockEnabled (snd (qcrypto_tls_session_push s buf))"
    using assms Some f
    by (simp_all add: qcrypto_tls_session_push_def Let_def emit_def qemu_mutex_lock_def
        qemu_mutex_unlock_def)
  then show ?thesis
    by (simp add: guarded_run_def)
qed

lemma pull_guarded:
  assumes "lockEnabled s"
  shows "guarded_run P s (snd (qcrypto_tls_session_pull s len))"
proof (cases "readFunc s")
  case None
  then show ?thesis using assms
    by (simp add: qcrypto_tls_session_pull_def guarded_run_def)
next
  case (Some f)
  obtain ret data err ctx where f: "f len (opaque s) = ((ret, data, err), ctx)"
    by (metis prod.exhaust)
  have "trace (snd (qcrypto_tls_session_pull s len))
          = trace s @ [ErrorFree Rd, MutexUnlock, Callback Rd, MutexLock]"
    and "lockEnabled (snd (qcrypto_tls_session_pull s len))"
    using assms Some f
    by (simp_all add: qcrypto_tls_session_pull_def Let_def emit_def qemu_mutex_lock_def
        qemu_mutex_unlock_def)
  then show ?thesis
    by (simp add: guarded_run_def)
qed

lemma run_engine_guarded:
  "lockEnabled s \<Longrightarrow> guarded_run P s (snd (run_engine run s))"
proof (induction run arbitrary: s)
  case (Done r)
  then show ?case by (simp add: guarded_run_refl)
next
  case (DoPush buf k)
  obtain res s' where p: "qcrypto_tls_session_push s buf = (res, s')"
    by (metis prod.exhaust)
  have g: "guarded_run P s s'" using push_guarded [OF DoPush.prems, of P buf] p by simp
  then have "lockEnabled s'" by (simp add: guarded_run_def)
  then have "guarded_run P s' (snd (run_engine (k res) s'))"
    using DoPush.IH [of "k res" s'] by blast
  then show ?case using g p guarded_run_trans by fastforce
next
  case (DoPull len k)
  obtain res s' where p: "qcrypto_tls_session_pull s len = (res, s')"
    by (metis prod.exhaust)
  have g: "guarded_run P s s'" using pull_guarded [OF DoPull.prems, of P len] p by simp
  then have "lockEnabled s'" by (simp add: guarded_run_def)
  then have "guarded_run P s' (snd (run_engine (k res) s'))"
    using DoPull.IH [of "k res" s'] by blast
  then show ?case using g p guarded_run_trans by fastforce
qed

lemma locked_engine_call_events:
  assumes "lockEnabled s"
  shows "\<exists>evs. trace (snd (engine_call f run (qemu_mutex_lock s)))
                 = trace s @ [MutexLock, EngineEnter f] @ evs @ [EngineLeave f]
               \<and> foldl (guard_step P) (Some True) evs = Some True
               \<and> lockEnabled (snd (engine_call f run (qemu_mutex_lock s)))"
proof -
  let ?s0 = "emit (EngineEnter f) (qemu_mutex_lock s)"
  have l0: "lockEnabled ?s0" using assms by (simp add: emit_def qemu_mutex_lock_def)
  from run_engine_guarded [OF l0, of P run] obtain evs where
    e: "trace (snd (run_engine run ?s0)) = trace ?s0 @ evs"
       "foldl (guard_step P) (Some True) evs = Some True"
       "lockEnabled (snd (run_engine run ?s0))"
    unfolding guarded_run_def by blast
  have t0: "trace ?s0 = trace s @ [MutexLock, EngineEnter f]"
    by (simp add: emit_def qemu_mutex_lock_def)
  have "snd (engine_call f run (qemu_mutex_lock s)) = emit (EngineLeave f) (snd (run_engine run ?s0))"
    by (simp add: engine_call_def split: prod.splits)
  then show ?thesis using e t0 by (simp add: emit_def)
qed

lemma write_events:
  assumes "lockEnabled s"
  shows "\<exists>evs. new_events s (snd (snd (qcrypto_tls_session_write cfg s buf send)))
                 = [MutexLock, EngineEnter gnutls_record_send] @ evs @ [EngineLeave gnutls_record_send, MutexUnlock]
               \<and> foldl (guard_step P) (Some True) evs = Some True"
proof -
  from locked_engine_call_events [OF assms, of gnutls_record_send "send buf" P] obtain evs where
    e: "trace (snd (engine_call gnutls_record_send (send buf) (qemu_mutex_lock s)))
          = trace s @ [MutexLock, EngineEnter gnutls_record_send] @ evs @ [EngineLeave gnutls_record_send]"
       "foldl (guard_step P) (Some True) evs = Some True"
       "lockEnabled (snd (engine_call gnutls_record_send (send buf) (qemu_mutex_lock s)))"
    by blast
  obtain ret s2 where c: "engine_call gnutls_record_send (send buf) (qemu_mutex_lock s) = (ret, s2)"
    by (metis prod.exhaust)
  have "trace (snd (snd (qcrypto_tls_session_write cfg s buf send)))
          = trace s2 @ [MutexUnlock]"
    using assms c e(3)
    by (simp add: qcrypto_tls_session_write_def Let_def qemu_mutex_unlock_def emit_def
        split: option.splits)
  then show ?thesis using e c by (auto simp: new_events_def)
qed

lemma read_events:
  assumes "lockEnabled s"
  shows "\<exists>evs. new_events s (snd (snd (snd (qcrypto_tls_session_read cfg s len graceful recv))))
                 = [MutexLock, EngineEnter gnutls_record_recv] @ evs @ [EngineLeave gnutls_record_recv, MutexUnlock]
               \<and> foldl (guard_step P) (Some True) evs = Some True"
proof -
  from locked_engine_call_events [OF assms, of gnutls_record_recv "recv len" P] obtain evs where
    e: "trace (snd (engine_call gnutls_record_recv (recv len) (qemu_mutex_lock s)))
          = trace s @ [MutexLock, EngineEnter gnutls_record_recv] @ evs @ [EngineLeave gnutls_record_recv]"
       "foldl (guard_step P) (Some True) evs = Some True"
       "lockEnabled (snd (engine_call gnutls_record_recv (recv len) (qemu_mutex_lock s)))"
    by blast
  obtain ret b s2 where c: "engine_call gnutls_record_recv (recv len) (qemu_mutex_lock s) = ((ret, b), s2)"
    by (metis prod.exhaust)
  have "trace (snd (snd (snd (qcrypto_tls_session_read cfg s len graceful recv))))
          = trace s2 @ [MutexUnlock]"
    using assms c e(3)
    by (simp add: qcrypto_tls_session_read_def Let_def qemu_mutex_unlock_def emit_def
        split: option.splits)
  then show ?thesis using e c by (auto simp: new_events_def)
qed

lemma report_failure_trace:
  "trace (snd (snd (report_failure cfg what ret s))) = trace s @ [ErrorFree Rd, ErrorFree Wr]"
  by (simp add: report_failure_def Let_def emit_def)

lemma bye_events:
  assumes "lockEnabled s" and "handshakeComplete s"
  shows "\<exists>evs rest. new_events s (snd (snd (qcrypto_tls_session_bye cfg s run dir)))
                 = [MutexLock, EngineEnter gnutls_bye] @ evs @ [EngineLeave gnutls_bye, MutexUnlock] @ rest
               \<and> foldl (guard_step P) (Some True) evs = Some True
               \<and> rest \<in> {[], [EngineEnter gnutls_record_get_direction, EngineLeave gnutls_record_get_direction],
                        [ErrorFree Rd, ErrorFree Wr]}"
proof -
  from locked_engine_call_events [OF assms(1), of gnutls_bye run P] obtain evs where
    e: "trace (snd (engine_call gnutls_bye run (qemu_mutex_lock s)))
          = trace s @ [MutexLock, EngineEnter gnutls_bye] @ evs @ [EngineLeave gnutls_bye]"
       "foldl (guard_step P) (Some True) evs = Some True"
       "lockEnabled (snd (engine_call gnutls_bye run (qemu_mutex_lock s)))"
    by blast
  obtain ret s2 where c: "engine_call gnutls_bye run (qemu_mutex_lock s) = (ret, s2)"
    by (metis prod.exhaust)
  have "\<exists>rest. trace (snd (snd (qcrypto_tls_session_bye cfg s run dir)))
          = trace s2 @ [MutexUnlock] @ rest
        \<and> rest \<in> {[], [EngineEnter gnutls_record_get_direction, EngineLeave gnutls_record_get_direction],
                        [ErrorFree Rd, ErrorFree Wr]}"
    using assms c e(3)
    by (simp add: qcrypto_tls_session_bye_def Let_def qemu_mutex_unlock_def emit_def
        engine_query_def report_failure_trace)
  then obtain rest where
    r: "trace (snd (snd (qcrypto_tls_session_bye cfg s run dir))) = trace s2 @ [MutexUnlock] @ rest"
       "rest \<in> {[], [EngineEnter gnutls_record_get_direction, EngineLeave gnutls_record_get_direction],
                        [ErrorFree Rd, ErrorFree Wr]}"
    by blast
  have "new_events s (snd (snd (qcrypto_tls_session_bye cfg s run dir)))
          = [MutexLock, EngineEnter gnutls_bye] @ evs @ [EngineLeave gnutls_bye, MutexUnlock] @ rest"
    using r(1) e(1) c by (simp add: new_events_def)
  then show ?thesis using e(2) r(2) by blast
qed

lemma guard_ok_bye_tail:
  assumes "foldl (guard_step all_but_direction_query) (Some True) evs = Some True"
    and "rest \<in> {[], [EngineEnter gnutls_record_get_direction, EngineLeave gnutls_record_get_direction],
                        [ErrorFree Rd, ErrorFree Wr]}"
  shows "guard_ok all_but_direction_query
           ([MutexLock, EngineEnter gnutls_bye] @ evs @ [EngineLeave gnutls_bye, MutexUnlock] @ rest)"
  using assms by (auto simp: guard_ok_def all_but_direction_query_def)

text \<open>
  Claim C3 says that with the guard engaged every operation that touches the engine,
  the handshake step included, calls the engine with the guard held, and that the
  engine is never called without it. On the sample session with the guard engaged, a
  handshake step calls the engine without taking the mutex, and a bye step that would
  block asks the engine for the record direction after it has released the mutex.
\<close>

theorem unguarded_engine_calls:
  "lockEnabled locked_session
   \<and> \<not> guard_ok every_engine_fn
         (new_events locked_session
            (snd (snd (qcrypto_tls_session_handshake sample_cfg locked_session (Done 0)
                         GNUTLS_TLS1_3 (GNUTLS_CIPHER_OTHER 0) 0))))
   \<and> \<not> guard_ok every_engine_fn
         (new_events locked_session
            (snd (snd (qcrypto_tls_session_bye sample_cfg locked_session
                         (Done GNUTLS_E_AGAIN) 1))))"
  by (simp add: locked_session_fields new_events_def qcrypto_tls_session_handshake_def
      qcrypto_tls_session_bye_def engine_call_def Let_def emit_def engine_query_def
      qemu_mutex_lock_def qemu_mutex_unlock_def guard_ok_def every_engine_fn_def
      sample_cfg_def GNUTLS_E_AGAIN_def GNUTLS_E_INTERRUPTED_def)

text \<open>
  Claim C3, as the code has it: with the guard engaged, a write and a read take the
  mutex, call the engine with the mutex held, drop it around every transport callback
  and take it again afterwards, and release it when the engine returns; the bye step
  does the same for \<^verbatim>\<open>gnutls_bye\<close>, and nothing is said about its query for the
  record direction. The handshake step is not part of the statement.
\<close>

theorem guard_held_for_send_recv_bye:
  assumes "lockEnabled s"
  shows "guard_ok every_engine_fn
           (new_events s (snd (snd (qcrypto_tls_session_write cfg s buf send))))
       \<and> guard_ok every_engine_fn
           (new_events s (snd (snd (snd (qcrypto_tls_session_read cfg s len graceful recv)))))
       \<and> guard_ok all_but_direction_query
           (new_events s (snd (snd (qcrypto_tls_session_bye cfg s run dir))))"
proof (intro conjI)
  show "guard_ok every_engine_fn
           (new_events s (snd (snd (qcrypto_tls_session_write cfg s buf send))))"
    using write_events [OF assms, of cfg buf send every_engine_fn]
    by (auto simp: guard_ok_def every_engine_fn_def)
  show "guard_ok every_engine_fn
           (new_events s (snd (snd (snd (qcrypto_tls_session_read cfg s len graceful recv)))))"
    using read_events [OF assms, of cfg len graceful recv every_engine_fn]
    by (auto simp: guard_ok_def every_engine_fn_def)
  show "guard_ok all_but_direction_query
           (new_events s (snd (snd (qcrypto_tls_session_bye cfg s run dir))))"
  proof (cases "handshakeComplete s")
    case False
    then show ?thesis
      by (simp add: qcrypto_tls_session_bye_def new_events_def guard_ok_def)
  next
    case True
    from bye_events [OF assms True, of cfg run dir all_but_direction_query]
    obtain evs rest where
      "new_events s (snd (snd (qcrypto_tls_session_bye cfg s run dir)))
         = [MutexLock, EngineEnter gnutls_bye] @ evs @ [EngineLeave gnutls_bye, MutexUnlock] @ rest"
      "foldl (guard_step all_but_direction_query) (Some True) evs = Some True"
      "rest \<in> {[], [EngineEnter gnutls_record_get_direction, EngineLeave gnutls_record_get_direction],
                        [ErrorFree Rd, ErrorFree Wr]}"
      by blast
    then show ?thesis using guard_ok_bye_tail by metis
  qed
qed

text \<open>
  The statement for claim C3 at the sample session with the guard engaged, with an
  engine that pushes, one that pulls, and a bye that would block.
\<close>

theorem guard_held_for_send_recv_bye_witness:
  "lockEnabled locked_session
   \<and> guard_ok every_engine_fn
        (new_events locked_session
           (snd (snd (qcrypto_tls_session_write sample_cfg locked_session ''hello''
                        sending_engine))))
   \<and> guard_ok every_engine_fn
        (new_events locked_session
           (snd (snd (snd (qcrypto_tls_session_read sample_cfg locked_session 16 False
                             receiving_engine)))))
   \<and> guard_ok all_but_direction_query
        (new_events locked_session
           (snd (snd (qcrypto_tls_session_bye sample_cfg locked_session
                        (Done GNUTLS_E_AGAIN) 1))))"
  using guard_held_for_send_recv_bye [OF locked_session_fields(1), of sample_cfg "''hello''"
      sending_engine 16 False receiving_engine "Done GNUTLS_E_AGAIN" 1]
    locked_session_fields(1)
  by blast

subsection \<open>The order of the steps of the bridge\<close>

text \<open>
  Claim C4 says that push and pull both clear the error slot first and release the
  guard afterwards. On the sample session with the guard engaged, pull does so, while
  push releases the mutex first and clears the write slot after that, outside the
  guard.
\<close>

theorem push_releases_guard_before_clearing:
  "lockEnabled locked_session
   \<and> new_events locked_session (snd (qcrypto_tls_session_push locked_session ''hello''))
       = [MutexUnlock, ErrorFree Wr, Callback Wr, MutexLock]
   \<and> new_events locked_session (snd (qcrypto_tls_session_pull locked_session 16))
       = [ErrorFree Rd, MutexUnlock, Callback Rd, MutexLock]"
  by (simp add: locked_session_fields new_events_def qcrypto_tls_session_push_def
      qcrypto_tls_session_pull_def Let_def emit_def qemu_mutex_lock_def qemu_mutex_unlock_def
      reset_write_def reset_read_def)

subsection \<open>Errors of write and read\<close>

lemma wired_send_fails:
  "fst (engine_call gnutls_record_send (sending_engine ''hello'') wired_session) = -53"
  "werr (snd (engine_call gnutls_record_send (sending_engine ''hello'') wired_session))
     = Some ''Connection reset by peer''"
  by (simp_all add: engine_call_def sending_engine_def qcrypto_tls_session_push_def Let_def
      emit_def wired_session_fields reset_write_def QCRYPTO_TLS_SESSION_ERR_BLOCK_def
      split: prod.splits)

lemma wired_recv_fails:
  "fst (engine_call gnutls_record_recv (receiving_engine 16) wired_session) = (-54, [])"
  "rerr (snd (engine_call gnutls_record_recv (receiving_engine 16) wired_session))
     = Some ''Connection reset by peer''"
  by (simp_all add: engine_call_def receiving_engine_def qcrypto_tls_session_pull_def Let_def
      emit_def wired_session_fields reset_read_def QCRYPTO_TLS_SESSION_ERR_BLOCK_def
      split: prod.splits)

text \<open>
  Claim C5: when the engine's send (receive) fails with a result that is neither
  would-block nor, for a graceful read, premature termination, and the write (read)
  slot holds an error when the engine returns, then the operation returns \<open>-1\<close> with
  exactly that error, not with the engine's message, and leaves the slot empty.
\<close>

theorem transport_error_takes_precedence:
  "(engine_call gnutls_record_send (send buf) (if lockEnabled s then qemu_mutex_lock s else s)
        = (ret, s2)
      \<and> ret < 0 \<and> ret \<noteq> GNUTLS_E_AGAIN \<and> werr s2 = Some err
    \<longrightarrow> (\<exists>s'. qcrypto_tls_session_write cfg s buf send = (-1, Some err, s') \<and> werr s' = None))
   \<and> (engine_call gnutls_record_recv (recv len) (if lockEnabled s then qemu_mutex_lock s else s)
        = ((ret', b), s2')
      \<and> ret' < 0 \<and> ret' \<noteq> GNUTLS_E_AGAIN
      \<and> \<not> (ret' = GNUTLS_E_PREMATURE_TERMINATION \<and> graceful) \<and> rerr s2' = Some err'
    \<longrightarrow> (\<exists>s'. qcrypto_tls_session_read cfg s len graceful recv = (-1, b, Some err', s')
              \<and> rerr s' = None))"
proof (intro conjI impI)
  assume "engine_call gnutls_record_send (send buf) (if lockEnabled s then qemu_mutex_lock s else s)
        = (ret, s2) \<and> ret < 0 \<and> ret \<noteq> GNUTLS_E_AGAIN \<and> werr s2 = Some err"
  then show "\<exists>s'. qcrypto_tls_session_write cfg s buf send = (-1, Some err, s') \<and> werr s' = None"
    unfolding qcrypto_tls_session_write_def Let_def
    by (simp add: qemu_mutex_unlock_def emit_def)
next
  assume "engine_call gnutls_record_recv (recv len) (if lockEnabled s then qemu_mutex_lock s else s)
        = ((ret', b), s2') \<and> ret' < 0 \<and> ret' \<noteq> GNUTLS_E_AGAIN
      \<and> \<not> (ret' = GNUTLS_E_PREMATURE_TERMINATION \<and> graceful) \<and> rerr s2' = Some err'"
  then show "\<exists>s'. qcrypto_tls_session_read cfg s len graceful recv = (-1, b, Some err', s')
              \<and> rerr s' = None"
    unfolding qcrypto_tls_session_read_def Let_def
    by (simp add: qemu_mutex_unlock_def emit_def)
qed

text \<open>
  The statement for claim C5 at the sample session whose callbacks report a reset
  connection: both operations surface that error.
\<close>

theorem transport_error_takes_precedence_witness:
  "(\<exists>s'. qcrypto_tls_session_write sample_cfg wired_session ''hello'' sending_engine
            = (-1, Some ''Connection reset by peer'', s') \<and> werr s' = None)
   \<and> (\<exists>s'. qcrypto_tls_session_read sample_cfg wired_session 16 False receiving_engine
            = (-1, [], Some ''Connection reset by peer'', s') \<and> rerr s' = None)"
proof -
  let ?w = "engine_call gnutls_record_send (sending_engine ''hello'') wired_session"
  let ?r = "engine_call gnutls_record_recv (receiving_engine 16) wired_session"
  have w: "engine_call gnutls_record_send (sending_engine ''hello'')
             (if lockEnabled wired_session then qemu_mutex_lock wired_session else wired_session)
           = (-53, snd ?w)"
    using wired_send_fails(1) by (simp add: wired_session_fields prod_eq_iff)
  have r: "engine_call gnutls_record_recv (receiving_engine 16)
             (if lockEnabled wired_session then qemu_mutex_lock wired_session else wired_session)
           = ((-54, []), snd ?r)"
    using wired_recv_fails(1) by (simp add: wired_session_fields prod_eq_iff)
  show ?thesis
    using transport_error_takes_precedence [of sending_engine "''hello''" wired_session "-53"
        "snd ?w" "''Connection reset by peer''" sample_cfg receiving_engine 16 "-54" "[]"
        "snd ?r" False "''Connection reset by peer''"]
      w r wired_send_fails(2) wired_recv_fails(2)
    by (simp add: GNUTLS_E_AGAIN_def)
qed

text \<open>
  Claim C8: when the engine's receive returns the premature-termination code, a read
  with graceful termination returns \<open>0\<close> and no error, and a read without it returns
  \<open>-1\<close> and an error.
\<close>

theorem premature_termination_read:
  assumes "fst (fst (engine_call gnutls_record_recv (recv len)
                      (if lockEnabled s then qemu_mutex_lock s else s)))
             = GNUTLS_E_PREMATURE_TERMINATION"
  shows "fst (qcrypto_tls_session_read cfg s len True recv) = 0
       \<and> fst (snd (snd (qcrypto_tls_session_read cfg s len True recv))) = None
       \<and> fst (qcrypto_tls_session_read cfg s len False recv) = -1
       \<and> fst (snd (snd (qcrypto_tls_session_read cfg s len False recv))) \<noteq> None"
proof -
  obtain ret b s2 where c: "engine_call gnutls_record_recv (recv len)
                      (if lockEnabled s then qemu_mutex_lock s else s) = ((ret, b), s2)"
    by (metis prod.exhaust)
  then have r: "ret = GNUTLS_E_PREMATURE_TERMINATION" using assms by simp
  show ?thesis
    unfolding qcrypto_tls_session_read_def Let_def c
    by (simp add: r GNUTLS_E_PREMATURE_TERMINATION_def GNUTLS_E_AGAIN_def split: option.splits)
qed

text \<open>
  The statement for claim C8 at a session whose read callback is at the end of the
  stream.
\<close>

theorem premature_termination_read_witness:
  "fst (fst (engine_call gnutls_record_recv (truncated_engine 16)
               (if lockEnabled eof_session then qemu_mutex_lock eof_session else eof_session)))
     = GNUTLS_E_PREMATURE_TERMINATION
   \<and> fst (qcrypto_tls_session_read sample_cfg eof_session 16 True truncated_engine) = 0
   \<and> fst (snd (snd (qcrypto_tls_session_read sample_cfg eof_session 16 True truncated_engine)))
       = None
   \<and> fst (qcrypto_tls_session_read sample_cfg eof_session 16 False truncated_engine) = -1
   \<and> fst (snd (snd (qcrypto_tls_session_read sample_cfg eof_session 16 False truncated_engine)))
       \<noteq> None"
proof -
  have h: "fst (fst (engine_call gnutls_record_recv (truncated_engine 16)
               (if lockEnabled eof_session then qemu_mutex_lock eof_session else eof_session)))
     = GNUTLS_E_PREMATURE_TERMINATION"
    by (simp add: engine_call_def truncated_engine_def qcrypto_tls_session_pull_def Let_def
      emit_def eof_session_fields eof_read_def QCRYPTO_TLS_SESSION_ERR_BLOCK_def
      split: prod.splits)
  show ?thesis
    using h premature_termination_read [of truncated_engine 16 eof_session sample_cfg] by blast
qed

subsection \<open>Construction\<close>

text \<open>
  Claim C6: for credentials of any kind, a construction that asks for an endpoint
  other than the one of the credentials fails with the error about the endpoint, and
  the engine's \<^verbatim>\<open>gnutls_init\<close> is not among the calls made.
\<close>

theorem new_endpoint_mismatch:
  fixes c :: QCryptoTLSCreds
  assumes "endpoint c \<noteq> ep"
  shows "snd (qcrypto_tls_session_new cfg env c host authz ep
                :: event list \<times> (Error + 'o QCryptoTLSSession))
           = Inl ''Credentials endpoint doesn't match session''
         \<and> EngineEnter gnutls_init
             \<notin> set (fst (qcrypto_tls_session_new cfg env c host authz ep
                            :: event list \<times> (Error + 'o QCryptoTLSSession)))"
  using assms
  by (simp add: qcrypto_tls_session_new_def qcrypto_tls_session_free_def)

text \<open>
  The statement for claim C6 at client credentials and a request for the server
  endpoint.
\<close>

theorem new_endpoint_mismatch_witness:
  "endpoint sample_creds \<noteq> QCRYPTO_TLS_CREDS_ENDPOINT_SERVER
   \<and> snd failed_construction = Inl ''Credentials endpoint doesn't match session''
   \<and> EngineEnter gnutls_init \<notin> set (fst failed_construction)"
proof -
  have h: "endpoint sample_creds \<noteq> QCRYPTO_TLS_CREDS_ENDPOINT_SERVER"
    by (simp add: sample_creds_def)
  show ?thesis
    unfolding failed_construction_def
    using h new_endpoint_mismatch [where ?'o = unit, OF h] by blast
qed

subsection \<open>The handshake flag\<close>

lemma push_handshakeComplete:
  "handshakeComplete (snd (qcrypto_tls_session_push s buf)) = handshakeComplete s"
  by (simp add: qcrypto_tls_session_push_def Let_def emit_def qemu_mutex_lock_def
      qemu_mutex_unlock_def split: option.splits prod.splits)

lemma pull_handshakeComplete:
  "handshakeComplete (snd (qcrypto_tls_session_pull s len)) = handshakeComplete s"
  by (simp add: qcrypto_tls_session_pull_def Let_def emit_def qemu_mutex_lock_def
      qemu_mutex_unlock_def split: option.splits prod.splits)

lemma run_engine_handshakeComplete:
  "handshakeComplete (snd (run_engine run s)) = handshakeComplete s"
proof (induction run arbitrary: s)
  case (Done r)
  show ?case by simp
next
  case (DoPush buf k)
  obtain res s' where p: "qcrypto_tls_session_push s buf = (res, s')"
    by (metis prod.exhaust)
  have "handshakeComplete s' = handshakeComplete s"
    using push_handshakeComplete [of s buf] p by simp
  moreover have "handshakeComplete (snd (run_engine (k res) s')) = handshakeComplete s'"
    using DoPush.IH [of "k res" s'] by blast
  ultimately show ?case using p by simp
next
  case (DoPull len k)
  obtain res s' where p: "qcrypto_tls_session_pull s len = (res, s')"
    by (metis prod.exhaust)
  have "handshakeComplete s' = handshakeComplete s"
    using pull_handshakeComplete [of s len] p by simp
  moreover have "handshakeComplete (snd (run_engine (k res) s')) = handshakeComplete s'"
    using DoPull.IH [of "k res" s'] by blast
  ultimately show ?case using p by simp
qed

lemma engine_call_handshakeComplete:
  "handshakeComplete (snd (engine_call f run s)) = handshakeComplete s"
proof -
  obtain r s' where c: "run_engine run (emit (EngineEnter f) s) = (r, s')"
    by (metis prod.exhaust)
  have "handshakeComplete s' = handshakeComplete (emit (EngineEnter f) s)"
    using run_engine_handshakeComplete [of run "emit (EngineEnter f) s"] c by simp
  then show ?thesis
    unfolding engine_call_def c by (simp add: emit_def)
qed

lemma engine_call_handshakeComplete':
  "engine_call f run s = (r, s') \<Longrightarrow> handshakeComplete s' = handshakeComplete s"
  using engine_call_handshakeComplete [of f run s] by simp

lemma write_handshakeComplete:
  "handshakeComplete (snd (snd (qcrypto_tls_session_write cfg s buf send))) = handshakeComplete s"
proof -
  let ?s1 = "if lockEnabled s then qemu_mutex_lock s else s"
  obtain ret s2 where c: "engine_call gnutls_record_send (send buf) ?s1 = (ret, s2)"
    by (metis prod.exhaust)
  have "handshakeComplete s2 = handshakeComplete ?s1"
    using engine_call_handshakeComplete' [OF c] .
  then have h: "handshakeComplete s2 = handshakeComplete s"
    by (simp add: qemu_mutex_lock_def emit_def)
  show ?thesis
    unfolding qcrypto_tls_session_write_def Let_def c
    using h by (simp add: qemu_mutex_unlock_def emit_def split: option.splits)
qed

lemma read_handshakeComplete:
  "handshakeComplete (snd (snd (snd (qcrypto_tls_session_read cfg s len g recv)))) = handshakeComplete s"
proof -
  let ?s1 = "if lockEnabled s then qemu_mutex_lock s else s"
  obtain ret b s2 where c: "engine_call gnutls_record_recv (recv len) ?s1 = ((ret, b), s2)"
    by (metis prod.exhaust)
  have "handshakeComplete s2 = handshakeComplete ?s1"
    using engine_call_handshakeComplete' [OF c] .
  then have h: "handshakeComplete s2 = handshakeComplete s"
    by (simp add: qemu_mutex_lock_def emit_def)
  show ?thesis
    unfolding qcrypto_tls_session_read_def Let_def c
    using h by (simp add: qemu_mutex_unlock_def emit_def split: option.splits)
qed

lemma report_failure_handshakeComplete:
  "handshakeComplete (snd (snd (report_failure cfg what ret s))) = handshakeComplete s"
  by (simp add: report_failure_def Let_def emit_def)

lemma report_failure_ret: "fst (report_failure cfg what ret s) = -1"
  by (simp add: report_failure_def Let_def)

lemma bye_handshakeComplete:
  "handshakeComplete (snd (snd (qcrypto_tls_session_bye cfg s run dir))) = handshakeComplete s"
proof (cases "handshakeComplete s")
  case False
  then show ?thesis by (simp add: qcrypto_tls_session_bye_def)
next
  case True
  let ?s1 = "if lockEnabled s then qemu_mutex_lock s else s"
  obtain ret s2 where c: "engine_call gnutls_bye run ?s1 = (ret, s2)"
    by (metis prod.exhaust)
  have "handshakeComplete s2 = handshakeComplete ?s1"
    using engine_call_handshakeComplete' [OF c] .
  then have h: "handshakeComplete s2 = handshakeComplete s"
    by (simp add: qemu_mutex_lock_def emit_def)
  show ?thesis
    unfolding qcrypto_tls_session_bye_def Let_def c
    using h True
    by (simp add: qemu_mutex_unlock_def emit_def engine_query_def
        report_failure_handshakeComplete)
qed

lemma handshake_cases:
  assumes "qcrypto_tls_session_handshake cfg s run version cipher dir = (r, e, s')"
  shows "(r = QCRYPTO_TLS_HANDSHAKE_COMPLETE \<and> handshakeComplete s')
       \<or> (r \<noteq> QCRYPTO_TLS_HANDSHAKE_COMPLETE \<and> handshakeComplete s' = handshakeComplete s)"
proof -
  obtain ret s1 where c: "engine_call gnutls_handshake run s = (ret, s1)"
    by (metis prod.exhaust)
  have h1: "handshakeComplete s1 = handshakeComplete s"
    using engine_call_handshakeComplete' [OF c] .
  show ?thesis
  proof (cases "ret = 0")
    case True
    then show ?thesis using assms c
      by (auto simp: qcrypto_tls_session_handshake_def Let_def)
  next
    case False
    show ?thesis
    proof (cases "ret = GNUTLS_E_INTERRUPTED \<or> ret = GNUTLS_E_AGAIN")
      case True
      then show ?thesis using assms c False h1
        by (auto simp: qcrypto_tls_session_handshake_def Let_def engine_query_def emit_def
            QCRYPTO_TLS_HANDSHAKE_COMPLETE_def QCRYPTO_TLS_HANDSHAKE_SENDING_def
            QCRYPTO_TLS_HANDSHAKE_RECVING_def split: if_splits)
    next
      case f2: False
      have "report_failure cfg ''TLS handshake failed: '' ret s1 = (r, e, s')"
        using assms c False f2 by (simp add: qcrypto_tls_session_handshake_def)
      then show ?thesis
        using report_failure_handshakeComplete [of cfg "''TLS handshake failed: ''" ret s1]
          report_failure_ret [of cfg "''TLS handshake failed: ''" ret s1] h1
        by (simp add: QCRYPTO_TLS_HANDSHAKE_COMPLETE_def)
    qed
  qed
qed

lemma check_certificate_loop_handshakeComplete:
  "check_certificate_loop cfg env now i certs s = Some (r, e, s')
     \<Longrightarrow> handshakeComplete s' = handshakeComplete s"
proof (induction cfg env now i certs s rule: check_certificate_loop.induct)
  case (1 cfg env now i session)
  then show ?case by simp
next
  case (2 cfg env now i cert certs session)
  show ?case
  proof (cases "crt_init_ret cert < 0 \<or> crt_import_ret cert < 0 \<or> expiration_time cert < now
                  \<or> activation_time cert > now")
    case True
    then show ?thesis using "2.prems" by (auto split: if_splits)
  next
    case ok: False
    show ?thesis
    proof (cases "i = 0")
      case False
      then show ?thesis using "2.prems" "2.IH"(2) ok by auto
    next
      case True
      from "2.prems" ok True obtain ret buf where
        q: "requery (crt_get_dn cert) 1024 = Some (ret, buf)"
        by (auto split: option.splits)
      let ?s1 = "session\<lparr>peername := Some buf\<rparr>"
      show ?thesis
      proof (cases "ret < 0 \<or> check_leaf env cert ?s1 buf \<noteq> None")
        case True
        then show ?thesis using "2.prems" ok \<open>i = 0\<close> q
          by (auto simp: Let_def split: if_splits option.splits)
      next
        case False
        then have "check_certificate_loop cfg env now (i + 1) certs ?s1 = Some (r, e, s')"
          using "2.prems" ok \<open>i = 0\<close> q by (auto simp: Let_def)
        then have "handshakeComplete s' = handshakeComplete ?s1"
          using "2.IH"(1) [of "(ret, buf)" ret buf ?s1] ok \<open>i = 0\<close> q False by auto
        then show ?thesis by simp
      qed
    qed
  qed
qed

lemma check_credentials_handshakeComplete:
  assumes "qcrypto_tls_session_check_credentials cfg env s = Some (r, e, s')"
  shows "handshakeComplete s' = handshakeComplete s"
proof (cases "typename (creds s) = TYPE_QCRYPTO_TLS_CREDS_X509 \<and> verifyPeer (creds s)")
  case False
  then show ?thesis using assms
    by (auto simp: qcrypto_tls_session_check_credentials_def split: creds_type.splits if_splits)
next
  case True
  then have c: "qcrypto_tls_session_check_certificate cfg env s = Some (r, e, s')"
    using assms by (simp add: qcrypto_tls_session_check_credentials_def)
  show ?thesis
  proof (cases "\<exists>certs. check_certificate_loop cfg env (time_now env) 0 certs s = Some (r, e, s')")
    case True
    then show ?thesis using check_certificate_loop_handshakeComplete by blast
  next
    case False
    then show ?thesis using c
      by (auto simp: qcrypto_tls_session_check_certificate_def Let_def
          split: if_splits option.splits prod.splits)
  qed
qed

lemma api_step_handshakeComplete:
  assumes "api_step cfg s call = Some (r, s')"
  shows "(handshakeComplete s' = handshakeComplete s)
       \<or> ((\<exists>run version cipher dir. call = ApiHandshake run version cipher dir)
           \<and> r = QCRYPTO_TLS_HANDSHAKE_COMPLETE \<and> handshakeComplete s')"
proof (cases call)
  case (ApiWrite buf send)
  then show ?thesis using assms write_handshakeComplete [of cfg s buf send]
    by (auto split: prod.splits)
next
  case (ApiRead len g recv)
  then show ?thesis using assms read_handshakeComplete [of cfg s len g recv]
    by (auto split: prod.splits)
next
  case (ApiHandshake run version cipher dir)
  then show ?thesis using assms handshake_cases [of cfg s run version cipher dir]
    by (auto split: prod.splits)
next
  case (ApiBye run dir)
  then show ?thesis using assms bye_handshakeComplete [of cfg s run dir]
    by (auto split: prod.splits)
next
  case (ApiCheckCredentials env)
  then show ?thesis using assms
    by (auto split: option.splits prod.splits dest: check_credentials_handshakeComplete)
next
  case (ApiSetCallbacks wfun rfun ctx)
  then show ?thesis using assms by (auto simp: qcrypto_tls_session_set_callbacks_def)
next
  case ApiRequireThreadSafety
  then show ?thesis using assms by (auto simp: qcrypto_tls_session_require_thread_safety_def)
next
  case (ApiCheckPending n)
  then show ?thesis using assms
    by (auto simp: qcrypto_tls_session_check_pending_def engine_query_def emit_def)
next
  case (ApiGetKeySize ssf)
  then show ?thesis using assms
    by (auto simp: qcrypto_tls_session_get_key_size_def engine_query_def emit_def Let_def
        split: if_splits)
next
  case ApiGetPeerName
  then show ?thesis using assms by auto
qed

lemma api_run_handshakeComplete:
  "handshakeComplete s \<Longrightarrow> api_run cfg s calls = Some s' \<Longrightarrow> handshakeComplete s'"
proof (induction calls arbitrary: s)
  case Nil
  then show ?case by simp
next
  case (Cons c cs)
  from Cons.prems(2) obtain r s1 where
    st: "api_step cfg s c = Some (r, s1)" and rest: "api_run cfg s1 cs = Some s'"
    by (auto split: option.splits)
  have "handshakeComplete s1"
    using api_step_handshakeComplete [OF st] Cons.prems(1) by auto
  then show ?case using Cons.IH rest by blast
qed

lemma later_calls_return: "api_run sample_cfg locked_session later_calls \<noteq> None"
  by (simp add: later_calls_def qcrypto_tls_session_check_credentials_def
      qcrypto_tls_session_check_certificate_def Let_def requery_evil check_leaf_def
      evil_env_def split: prod.splits option.splits creds_type.splits)

text \<open>
  Claim C7: a handshake step that returns COMPLETE leaves \<open>handshakeComplete\<close> set,
  and the flag is still set after any sequence of later calls of the interface,
  whatever they return; moreover a call of the interface changes the flag only if it
  is a handshake step that returns COMPLETE, and then from unset to set.
\<close>

theorem handshake_complete_is_sticky:
  "(qcrypto_tls_session_handshake cfg s run version cipher dir = (QCRYPTO_TLS_HANDSHAKE_COMPLETE, e, s1)
      \<longrightarrow> handshakeComplete s1
          \<and> (\<forall>calls s2. api_run cfg s1 calls = Some s2 \<longrightarrow> handshakeComplete s2))
   \<and> (api_step cfg s call = Some (r, s') \<and> handshakeComplete s' \<noteq> handshakeComplete s
      \<longrightarrow> (\<exists>run' version' cipher' dir'. call = ApiHandshake run' version' cipher' dir')
          \<and> r = QCRYPTO_TLS_HANDSHAKE_COMPLETE \<and> \<not> handshakeComplete s \<and> handshakeComplete s')"
proof (intro conjI impI)
  assume h: "qcrypto_tls_session_handshake cfg s run version cipher dir = (QCRYPTO_TLS_HANDSHAKE_COMPLETE, e, s1)"
  show c: "handshakeComplete s1" using handshake_cases [OF h] by simp
  show "\<forall>calls s2. api_run cfg s1 calls = Some s2 \<longrightarrow> handshakeComplete s2"
    using api_run_handshakeComplete [OF c] by blast
next
  assume a: "api_step cfg s call = Some (r, s') \<and> handshakeComplete s' \<noteq> handshakeComplete s"
  then show "\<exists>run' version' cipher' dir'. call = ApiHandshake run' version' cipher' dir'"
    and "r = QCRYPTO_TLS_HANDSHAKE_COMPLETE" and "\<not> handshakeComplete s" and "handshakeComplete s'"
    using api_step_handshakeComplete [of cfg s call r s'] by auto
qed

text \<open>
  The statement for claim C7 at the sample session: the handshake step completes, and
  after a failing write, a failing read, a failing credentials check and a failing bye
  the flag is still set.
\<close>

theorem handshake_complete_is_sticky_witness:
  "qcrypto_tls_session_handshake sample_cfg threadsafe_session (Done 0) GNUTLS_TLS1_3
       (GNUTLS_CIPHER_OTHER 0) 0 = (QCRYPTO_TLS_HANDSHAKE_COMPLETE, None, locked_session)
   \<and> \<not> handshakeComplete threadsafe_session
   \<and> handshakeComplete locked_session
   \<and> api_run sample_cfg locked_session later_calls \<noteq> None
   \<and> handshakeComplete (the (api_run sample_cfg locked_session later_calls))"
proof -
  have n: "\<not> handshakeComplete threadsafe_session"
    by (simp add: threadsafe_session_def wired_session_def client_session_def
        qcrypto_tls_session_require_thread_safety_def qcrypto_tls_session_set_callbacks_def)
  have st: "api_step sample_cfg threadsafe_session
              (ApiHandshake (Done 0) GNUTLS_TLS1_3 (GNUTLS_CIPHER_OTHER 0) 0)
            = Some (QCRYPTO_TLS_HANDSHAKE_COMPLETE, locked_session)"
    by (simp add: locked_session_handshake)
  obtain s2 where r: "api_run sample_cfg locked_session later_calls = Some s2"
    using later_calls_return by blast
  show ?thesis
    using handshake_complete_is_sticky [of sample_cfg threadsafe_session "Done 0" GNUTLS_TLS1_3
        "GNUTLS_CIPHER_OTHER 0" 0 None locked_session
        "ApiHandshake (Done 0) GNUTLS_TLS1_3 (GNUTLS_CIPHER_OTHER 0) 0"
        QCRYPTO_TLS_HANDSHAKE_COMPLETE locked_session]
      locked_session_handshake n st r later_calls_return
    by auto
qed

subsection \<open>The results of the bridge\<close>

lemma push_result:
  assumes "writeFunc s = Some f" and "f buf (opaque s) = ((ret, err), ctx)"
  shows "fst (qcrypto_tls_session_push s buf) =
           (if ret = QCRYPTO_TLS_SESSION_ERR_BLOCK then (-1, Some EAGAIN)
            else if ret < 0 then (-1, Some EIO) else (ret, None))"
    and "werr (snd (qcrypto_tls_session_push s buf)) = err"
  using assms
  by (simp_all add: qcrypto_tls_session_push_def Let_def emit_def qemu_mutex_lock_def
      qemu_mutex_unlock_def)

lemma pull_result:
  assumes "readFunc s = Some f" and "f len (opaque s) = ((ret, data, err), ctx)"
  shows "fst (fst (qcrypto_tls_session_pull s len)) =
           (if ret = QCRYPTO_TLS_SESSION_ERR_BLOCK then (-1, Some EAGAIN)
            else if ret < 0 then (-1, Some EIO) else (ret, None))"
    and "rerr (snd (qcrypto_tls_session_pull s len)) = err"
  using assms
  by (simp_all add: qcrypto_tls_session_pull_def Let_def emit_def qemu_mutex_lock_def
      qemu_mutex_unlock_def)

text \<open>
  Claim C9: with the callback installed, the bridge returns \<open>-1\<close> with \<^verbatim>\<open>EAGAIN\<close>
  when the callback reports would-block, \<open>-1\<close> with \<^verbatim>\<open>EIO\<close> when it returns any
  other negative value, the error that the callback stored being then in the slot of
  that direction, and the callback's own count when that is not negative.
\<close>

theorem bridge_translates_callback_result:
  "(writeFunc s = Some wfun \<and> wfun buf (opaque s) = ((ret, err), ctx)
     \<longrightarrow> (ret = QCRYPTO_TLS_SESSION_ERR_BLOCK
            \<longrightarrow> fst (qcrypto_tls_session_push s buf) = (-1, Some EAGAIN))
        \<and> (ret < 0 \<and> ret \<noteq> QCRYPTO_TLS_SESSION_ERR_BLOCK
            \<longrightarrow> fst (qcrypto_tls_session_push s buf) = (-1, Some EIO)
                \<and> werr (snd (qcrypto_tls_session_push s buf)) = err)
        \<and> (0 \<le> ret \<longrightarrow> fst (qcrypto_tls_session_push s buf) = (ret, None)))
   \<and> (readFunc s = Some rfun \<and> rfun len (opaque s) = ((ret', data, err'), ctx')
     \<longrightarrow> (ret' = QCRYPTO_TLS_SESSION_ERR_BLOCK
            \<longrightarrow> fst (fst (qcrypto_tls_session_pull s len)) = (-1, Some EAGAIN))
        \<and> (ret' < 0 \<and> ret' \<noteq> QCRYPTO_TLS_SESSION_ERR_BLOCK
            \<longrightarrow> fst (fst (qcrypto_tls_session_pull s len)) = (-1, Some EIO)
                \<and> rerr (snd (qcrypto_tls_session_pull s len)) = err')
        \<and> (0 \<le> ret' \<longrightarrow> fst (fst (qcrypto_tls_session_pull s len)) = (ret', None)))"
proof (intro conjI impI)
  assume a: "writeFunc s = Some wfun \<and> wfun buf (opaque s) = ((ret, err), ctx)"
  note r = push_result [of s wfun buf ret err ctx]
  { assume "ret = QCRYPTO_TLS_SESSION_ERR_BLOCK"
    then show "fst (qcrypto_tls_session_push s buf) = (-1, Some EAGAIN)" using a r(1) by simp }
  { assume "ret < 0 \<and> ret \<noteq> QCRYPTO_TLS_SESSION_ERR_BLOCK"
    then show "fst (qcrypto_tls_session_push s buf) = (-1, Some EIO)" using a r(1) by simp }
  { show "werr (snd (qcrypto_tls_session_push s buf)) = err" using a r(2) by simp }
  { assume "0 \<le> ret"
    then show "fst (qcrypto_tls_session_push s buf) = (ret, None)"
      using a r(1) by (simp add: QCRYPTO_TLS_SESSION_ERR_BLOCK_def) }
next
  assume a: "readFunc s = Some rfun \<and> rfun len (opaque s) = ((ret', data, err'), ctx')"
  note r = pull_result [of s rfun len ret' data err' ctx']
  { assume "ret' = QCRYPTO_TLS_SESSION_ERR_BLOCK"
    then show "fst (fst (qcrypto_tls_session_pull s len)) = (-1, Some EAGAIN)"
      using a r(1) by simp }
  { assume "ret' < 0 \<and> ret' \<noteq> QCRYPTO_TLS_SESSION_ERR_BLOCK"
    then show "fst (fst (qcrypto_tls_session_pull s len)) = (-1, Some EIO)"
      using a r(1) by simp }
  { show "rerr (snd (qcrypto_tls_session_pull s len)) = err'" using a r(2) by simp }
  { assume "0 \<le> ret'"
    then show "fst (fst (qcrypto_tls_session_pull s len)) = (ret', None)"
      using a r(1) by (simp add: QCRYPTO_TLS_SESSION_ERR_BLOCK_def) }
qed

text \<open>
  The statement for claim C9 at the sample session whose callbacks report a reset
  connection.
\<close>

theorem bridge_translates_callback_result_witness:
  "writeFunc wired_session = Some reset_write
   \<and> reset_write ''hello'' (opaque wired_session) = ((-1, Some ''Connection reset by peer''), Some ())
   \<and> fst (qcrypto_tls_session_push wired_session ''hello'') = (-1, Some EIO)
   \<and> werr (snd (qcrypto_tls_session_push wired_session ''hello'')) = Some ''Connection reset by peer''
   \<and> readFunc wired_session = Some reset_read
   \<and> reset_read 16 (opaque wired_session) = ((-1, [], Some ''Connection reset by peer''), Some ())
   \<and> fst (fst (qcrypto_tls_session_pull wired_session 16)) = (-1, Some EIO)
   \<and> rerr (snd (qcrypto_tls_session_pull wired_session 16)) = Some ''Connection reset by peer''"
  using bridge_translates_callback_result [of wired_session reset_write "''hello''" "-1"
      "Some ''Connection reset by peer''" "Some ()" reset_read 16 "-1" "[]"
      "Some ''Connection reset by peer''" "Some ()"]
  by (simp add: wired_session_fields reset_write_def reset_read_def
      QCRYPTO_TLS_SESSION_ERR_BLOCK_def)

text \<open>
  Claim C10: without a write (read) callback, push (pull) returns \<open>-1\<close> with
  \<^verbatim>\<open>EIO\<close> and leaves the session as it was: no callback is invoked, no error slot is
  released and the mutex is not touched, so the log is unchanged as well.
\<close>

theorem bridge_without_callback:
  "(writeFunc s = None \<longrightarrow> qcrypto_tls_session_push s buf = ((-1, Some EIO), s))
   \<and> (readFunc s = None \<longrightarrow> qcrypto_tls_session_pull s len = (((-1, Some EIO), []), s))"
  by (simp add: qcrypto_tls_session_push_def qcrypto_tls_session_pull_def)

text \<open>
  The statement for claim C10 at the sample session before callbacks are installed.
\<close>

theorem bridge_without_callback_witness:
  "writeFunc client_session = None \<and> readFunc client_session = None
   \<and> qcrypto_tls_session_push client_session ''hello'' = ((-1, Some EIO), client_session)
   \<and> qcrypto_tls_session_pull client_session 16 = (((-1, Some EIO), []), client_session)"
  using bridge_without_callback [of client_session "''hello''" 16]
  by (simp add: client_session_def)

end
